theory Spec2Isabelle
  imports
    Complex_Main
    "HOL-Library.Char_ord"
    "HOL-Library.List_Lexorder"
    "HOL-Library.Product_Lexorder"
begin

section \<open>Data model\<close>

text \<open>
  The history file of \<^verbatim>\<open>data_manager.py\<close> holds a JSON list of flat dictionaries.
  A JSON value is one of the cases of \<open>jval\<close>; a Python \<^verbatim>\<open>dict\<close> with string keys
  is a partial map, so that an absent key (\<open>None\<close> of the map) and a key bound to
  \<^verbatim>\<open>null\<close> (\<open>Some JNull\<close>) stay distinct. Floats are idealised as reals.
\<close>

datatype jval = JNull | JInt int | JNum real | JStr string | JList "jval list"

type_synonym pydict = "string \<Rightarrow> jval option"

type_synonym event = pydict

datatype error = KeyError string | IOError | ValueError | UnicodeDecodeError | RecursionError

text \<open>
  What \<^verbatim>\<open>HISTORY_FILE\<close> can be when it is opened, by what opening and
  \<^verbatim>\<open>json.load\<close> do with it:
  \<^item> \<open>Absent\<close>: the file is not there;
  \<^item> \<open>Unreadable\<close>: opening or reading raises \<^verbatim>\<open>IOError\<close>;
  \<^item> \<open>Corrupt\<close>: the parser raises \<^verbatim>\<open>JSONDecodeError\<close>;
  \<^item> \<open>Undecodable\<close>: the bytes are not text in the encoding of the platform, and
    reading raises \<^verbatim>\<open>UnicodeDecodeError\<close>;
  \<^item> \<open>Too_deep\<close>: the text is nested so deeply that the parser raises
    \<^verbatim>\<open>RecursionError\<close>;
  \<^item> \<open>Stored\<close>: the file holds a list of dictionaries, as \<^verbatim>\<open>json.dump\<close> wrote
    it.
  \<^verbatim>\<open>json.dump\<close> followed by \<^verbatim>\<open>json.load\<close> gives back an equal list of
  dictionaries, so the serialised text itself is not modelled. A file that holds
  valid JSON of another shape (\<^verbatim>\<open>null\<close>, a number, a dictionary), which
  \<^verbatim>\<open>json.load\<close> returns as it is, has no case here: the program never writes one,
  and nothing below is stated about it.

  The data directory also records whether \<^verbatim>\<open>open(path, 'w')\<close> succeeds in it
  (\<open>writable\<close>), its own path (\<^verbatim>\<open>get_data_directory()\<close>), and the rows of the
  export files written so far, by path.
\<close>

datatype file_state =
  Absent | Unreadable | Corrupt | Undecodable | Too_deep | Stored "event list"

record data_dir =
  dir_path :: string
  history_file :: file_state
  writable :: bool
  exported :: "string \<Rightarrow> event list option"

section \<open>History store\<close>

text \<open>
  \<^verbatim>\<open>load_detection_history\<close>: the file is created when it does not exist (that
  \<^verbatim>\<open>open(..., 'w')\<close> is outside the \<^verbatim>\<open>try\<close>, so its failure propagates); reading
  is inside the \<^verbatim>\<open>try\<close>, whose \<^verbatim>\<open>except (json.JSONDecodeError, IOError)\<close> turns
  these two exceptions into the empty list and lets every other one pass.
\<close>

definition load_detection_history :: "data_dir \<Rightarrow> error + (event list \<times> data_dir)" where
  "load_detection_history fs =
     (case history_file fs of
        Absent \<Rightarrow>
          (if writable fs then Inr ([], fs\<lparr>history_file := Stored []\<rparr>) else Inl IOError)
      | Unreadable \<Rightarrow> Inr ([], fs)
      | Corrupt \<Rightarrow> Inr ([], fs)
      | Undecodable \<Rightarrow> Inl UnicodeDecodeError
      | Too_deep \<Rightarrow> Inl RecursionError
      | Stored history \<Rightarrow> Inr (history, fs))"

text \<open>\<^verbatim>\<open>d.get(k, default)\<close> and \<^verbatim>\<open>d.get(k)\<close>, whose default is \<^verbatim>\<open>None\<close>.\<close>

definition dict_get :: "pydict \<Rightarrow> string \<Rightarrow> jval \<Rightarrow> jval" where
  "dict_get d k dflt = (case d k of None \<Rightarrow> dflt | Some v \<Rightarrow> v)"

text \<open>One line \<^verbatim>\<open>if k in result: entry[k] = result[k]\<close>.\<close>

definition copy_if_present :: "pydict \<Rightarrow> string \<Rightarrow> event \<Rightarrow> event" where
  "copy_if_present result k entry =
     (case result k of None \<Rightarrow> entry | Some v \<Rightarrow> entry(k \<mapsto> v))"

text \<open>The seven keys copied that way, in the order of the source.\<close>

definition detail_keys :: "string list" where
  "detail_keys =
     [''scientific_name'', ''weight_range'', ''height_range'', ''conservation_status'',
      ''habitat'', ''description'', ''detected_at'']"

text \<open>
  The body of the loop of \<^verbatim>\<open>save_detection_results\<close> up to \<^verbatim>\<open>history.append\<close>:
  \<^verbatim>\<open>result["species"]\<close> and \<^verbatim>\<open>result["confidence"]\<close> raise \<^verbatim>\<open>KeyError\<close> on
  a missing key, in that order.
\<close>

definition make_entry ::
  "string \<Rightarrow> string \<Rightarrow> string \<Rightarrow> pydict \<Rightarrow> pydict \<Rightarrow> error + event" where
  "make_entry detection_id timestamp image_name location result =
     (case result ''species'' of
        None \<Rightarrow> Inl (KeyError ''species'')
      | Some sp \<Rightarrow>
          (case result ''confidence'' of
             None \<Rightarrow> Inl (KeyError ''confidence'')
           | Some cf \<Rightarrow>
               Inr (fold (copy_if_present result) detail_keys
                     [''detection_id'' \<mapsto> JStr detection_id,
                      ''timestamp'' \<mapsto> JStr timestamp,
                      ''image_name'' \<mapsto> JStr image_name,
                      ''species'' \<mapsto> sp,
                      ''confidence'' \<mapsto> cf,
                      ''count'' \<mapsto> dict_get result ''count'' (JInt 1),
                      ''latitude'' \<mapsto> dict_get location ''latitude'' JNull,
                      ''longitude'' \<mapsto> dict_get location ''longitude'' JNull,
                      ''location_name'' \<mapsto> dict_get location ''location_name'' (JStr ''Unknown'')])))"

text \<open>The loop over \<^verbatim>\<open>results\<close>; an exception leaves it before anything is written.\<close>

fun add_results ::
  "string \<Rightarrow> string \<Rightarrow> string \<Rightarrow> pydict \<Rightarrow> pydict list \<Rightarrow> event list \<Rightarrow> error + event list" where
  "add_results detection_id timestamp image_name location [] history = Inr history"
| "add_results detection_id timestamp image_name location (result # results) history =
     (case make_entry detection_id timestamp image_name location result of
        Inl e \<Rightarrow> Inl e
      | Inr entry \<Rightarrow>
          add_results detection_id timestamp image_name location results (history @ [entry]))"

definition save_detection_results ::
  "string \<Rightarrow> string \<Rightarrow> string \<Rightarrow> pydict \<Rightarrow> pydict list \<Rightarrow> data_dir \<Rightarrow> error + data_dir" where
  "save_detection_results detection_id timestamp image_name location results fs =
     (case load_detection_history fs of
        Inl e \<Rightarrow> Inl e
      | Inr (history, fs1) \<Rightarrow>
          (case add_results detection_id timestamp image_name location results history of
             Inl e \<Rightarrow> Inl e
           | Inr history' \<Rightarrow>
               (if writable fs1 then Inr (fs1\<lparr>history_file := Stored history'\<rparr>)
                else Inl IOError)))"

text \<open>\<^verbatim>\<open>clear_detection_history\<close>: the bare \<^verbatim>\<open>except\<close> turns any failure into \<^verbatim>\<open>False\<close>.\<close>

definition clear_detection_history :: "data_dir \<Rightarrow> bool \<times> data_dir" where
  "clear_detection_history fs =
     (if writable fs then (True, fs\<lparr>history_file := Stored []\<rparr>) else (False, fs))"

section \<open>Data frames\<close>

text \<open>
  \<^verbatim>\<open>pd.DataFrame(history)\<close> has one row per dictionary and one column per key; a
  row without the key, or with \<^verbatim>\<open>null\<close> there, holds a missing value (\<open>None\<close>).
  The typed readings below are what the columns hold for the events of the data
  model: strings, whole numbers, and numbers.
\<close>

definition cell :: "string \<Rightarrow> event \<Rightarrow> jval option" where
  "cell k e = (case e k of Some JNull \<Rightarrow> None | v \<Rightarrow> v)"

definition str_cell :: "string \<Rightarrow> event \<Rightarrow> string option" where
  "str_cell k e = (case cell k e of Some (JStr s) \<Rightarrow> Some s | _ \<Rightarrow> None)"

definition int_cell :: "string \<Rightarrow> event \<Rightarrow> int option" where
  "int_cell k e = (case cell k e of Some (JInt n) \<Rightarrow> Some n | _ \<Rightarrow> None)"

definition num_cell :: "string \<Rightarrow> event \<Rightarrow> real option" where
  "num_cell k e =
     (case cell k e of Some (JInt n) \<Rightarrow> Some (of_int n) | Some (JNum x) \<Rightarrow> Some x | _ \<Rightarrow> None)"

text \<open>
  The columns of the frame are the keys that some dictionary has, whatever the value;
  \<^verbatim>\<open>groupby\<close>, \<^verbatim>\<open>agg\<close> and \<^verbatim>\<open>df[k]\<close> raise \<^verbatim>\<open>KeyError\<close> on a column
  that the frame does not have (the frame of the empty list has none).
  \<open>missing_column\<close> gives the first of the columns asked for that is not there.
\<close>

definition has_column :: "string \<Rightarrow> event list \<Rightarrow> bool" where
  "has_column k df = list_ex (\<lambda>e. e k \<noteq> None) df"

fun missing_column :: "string list \<Rightarrow> event list \<Rightarrow> string option" where
  "missing_column [] df = None"
| "missing_column (k # ks) df = (if has_column k df then missing_column ks df else Some k)"

text \<open>
  \<^verbatim>\<open>df.groupby(keys)\<close> with the defaults \<^verbatim>\<open>sort=True\<close> and \<^verbatim>\<open>dropna=True\<close>: one
  group per key that occurs, the keys ascending, a row with a missing key in no group,
  the rows of a group in the order of the frame.
\<close>

definition groupby :: "('r \<Rightarrow> 'k::linorder option) \<Rightarrow> 'r list \<Rightarrow> ('k \<times> 'r list) list" where
  "groupby key df =
     map (\<lambda>k. (k, filter (\<lambda>r. key r = Some k) df)) (sort (remdups (List.map_filter key df)))"

text \<open>
  The aggregations \<^verbatim>\<open>"sum"\<close>, \<^verbatim>\<open>"mean"\<close>, \<^verbatim>\<open>"count"\<close> and \<^verbatim>\<open>"nunique"\<close>; each
  skips missing values, and the mean of no value is missing. A column of whole
  numbers is a column of signed 64-bit integers, and its sum is accumulated in that
  type: \<open>int64\<close> is the value that 64 bits keep of a whole number, and every addition
  of \<open>agg_sum\<close> wraps around. (A count outside 64 bits, or a missing count, makes
  pandas choose another type for the column; the events of the data model have neither.)
\<close>

definition int64 :: "int \<Rightarrow> int" where
  "int64 n = (n + 2 ^ 63) mod 2 ^ 64 - 2 ^ 63"

definition agg_sum :: "string \<Rightarrow> event list \<Rightarrow> int" where
  "agg_sum k g = fold (\<lambda>n acc. int64 (acc + n)) (List.map_filter (int_cell k) g) 0"

definition agg_mean :: "string \<Rightarrow> event list \<Rightarrow> real option" where
  "agg_mean k g =
     (let xs = List.map_filter (num_cell k) g
      in if xs = [] then None else Some (sum_list xs / real (length xs)))"

definition agg_count :: "string \<Rightarrow> event list \<Rightarrow> nat" where
  "agg_count k g = length (List.map_filter (cell k) g)"

definition agg_nunique :: "string \<Rightarrow> event list \<Rightarrow> nat" where
  "agg_nunique k g = length (remdups (List.map_filter (cell k) g))"

section \<open>Timestamps\<close>

text \<open>
  A timestamp is a date (year, month, day) and a time of day (hour, minute, second);
  the lexicographic order of the pairs is the order of time, and \<^verbatim>\<open>.dt.date\<close> is the
  first component. \<open>to_datetime\<close> reads the format \<^verbatim>\<open>%Y-%m-%d %H:%M:%S\<close> that
  \<^verbatim>\<open>app.py\<close> writes, for the years that \<^verbatim>\<open>pd.Timestamp\<close> holds whole;
  \<^verbatim>\<open>pd.to_datetime\<close> accepts further formats, which the events of the data model do
  not use.
\<close>

type_synonym date = "nat \<times> nat \<times> nat"

type_synonym datetime = "date \<times> nat \<times> nat \<times> nat"

definition digit :: "char \<Rightarrow> nat option" where
  "digit c = map_of (zip ''0123456789'' [0, 1, 2, 3, 4, 5, 6, 7, 8, 9]) c"

fun digits :: "nat \<Rightarrow> string \<Rightarrow> nat option" where
  "digits acc [] = Some acc"
| "digits acc (c # cs) =
     (case digit c of None \<Rightarrow> None | Some d \<Rightarrow> digits (10 * acc + d) cs)"

definition days_in_month :: "nat \<Rightarrow> nat \<Rightarrow> nat" where
  "days_in_month y m =
     (if m = 2 then (if y mod 4 = 0 \<and> (y mod 100 \<noteq> 0 \<or> y mod 400 = 0) then 29 else 28)
      else if m = 4 \<or> m = 6 \<or> m = 9 \<or> m = 11 then 30
      else 31)"

definition to_datetime :: "string \<Rightarrow> datetime option" where
  "to_datetime s =
     (if length s = 19 \<and> s ! 4 = CHR ''-'' \<and> s ! 7 = CHR ''-'' \<and> s ! 10 = CHR '' ''
         \<and> s ! 13 = CHR '':'' \<and> s ! 16 = CHR '':''
      then
        (case (digits 0 (take 4 s), digits 0 (take 2 (drop 5 s)), digits 0 (take 2 (drop 8 s)),
               digits 0 (take 2 (drop 11 s)), digits 0 (take 2 (drop 14 s)),
               digits 0 (take 2 (drop 17 s))) of
           (Some y, Some m, Some d, Some hh, Some mm, Some ss) \<Rightarrow>
             (if 1678 \<le> y \<and> y \<le> 2261 \<and> 1 \<le> m \<and> m \<le> 12 \<and> 1 \<le> d \<and> d \<le> days_in_month y m
                 \<and> hh < 24 \<and> mm < 60 \<and> ss < 60
              then Some ((y, m, d), (hh, mm, ss)) else None)
         | _ \<Rightarrow> None)
      else None)"

text \<open>
  The column \<^verbatim>\<open>df["datetime"] = pd.to_datetime(df["timestamp"])\<close>, kept beside each
  row. A timestamp that is not a string of the format above is reported as
  \<^verbatim>\<open>ValueError\<close>.
\<close>

definition event_datetime :: "event \<Rightarrow> datetime option" where
  "event_datetime e = (case str_cell ''timestamp'' e of None \<Rightarrow> None | Some s \<Rightarrow> to_datetime s)"

fun datetime_column :: "event list \<Rightarrow> error + (datetime \<times> event) list" where
  "datetime_column [] = Inr []"
| "datetime_column (e # es) =
     (case event_datetime e of
        None \<Rightarrow> Inl ValueError
      | Some d \<Rightarrow>
          (case datetime_column es of Inl x \<Rightarrow> Inl x | Inr ds \<Rightarrow> Inr ((d, e) # ds)))"

section \<open>Aggregation\<close>

text \<open>
  The species summary: \<^verbatim>\<open>df.groupby("species").agg(count=("count", "sum"),
  avg_confidence=("confidence", "mean"), detections=("detection_id", "count"))\<close>, as in
  \<^verbatim>\<open>get_species_summary\<close> and, with the first column called \<^verbatim>\<open>total_count\<close>, in the
  Species Summary report of \<^verbatim>\<open>app.py\<close> (whose formatting of the columns for
  display is left out). \<^verbatim>\<open>get_species_summary\<close> returns an empty frame for an empty
  history before it builds a frame; \<^verbatim>\<open>app.py\<close> shows its reports for a history that is
  not empty only.
\<close>

record species_row =
  sp_species :: string
  sp_total_count :: int
  sp_avg_confidence :: "real option"
  sp_detections :: nat

definition species_groups :: "event list \<Rightarrow> species_row list" where
  "species_groups df =
     map (\<lambda>(k, g). \<lparr>sp_species = k, sp_total_count = agg_sum ''count'' g,
                     sp_avg_confidence = agg_mean ''confidence'' g,
                     sp_detections = agg_count ''detection_id'' g\<rparr>)
         (groupby (str_cell ''species'') df)"

definition species_summary :: "event list \<Rightarrow> error + species_row list" where
  "species_summary df =
     (case missing_column [''species'', ''count'', ''confidence'', ''detection_id''] df of
        Some k \<Rightarrow> Inl (KeyError k)
      | None \<Rightarrow> Inr (species_groups df))"

definition get_species_summary :: "data_dir \<Rightarrow> error + (species_row list \<times> data_dir)" where
  "get_species_summary fs =
     (case load_detection_history fs of
        Inl e \<Rightarrow> Inl e
      | Inr (history, fs1) \<Rightarrow>
          (if history = [] then Inr ([], fs1)
           else (case species_summary history of
                   Inl e \<Rightarrow> Inl e
                 | Inr summary \<Rightarrow> Inr (summary, fs1))))"

text \<open>
  The location summary of \<^verbatim>\<open>get_location_summary\<close>: grouped by the three columns
  \<^verbatim>\<open>["location_name", "latitude", "longitude"]\<close>, with two aggregates.
\<close>

definition location_key :: "event \<Rightarrow> (string \<times> real \<times> real) option" where
  "location_key e =
     (case (str_cell ''location_name'' e, num_cell ''latitude'' e, num_cell ''longitude'' e) of
        (Some n, Some la, Some lo) \<Rightarrow> Some (n, la, lo)
      | _ \<Rightarrow> None)"

record location_row =
  loc_location_name :: string
  loc_latitude :: real
  loc_longitude :: real
  loc_species_count :: nat
  loc_total_detections :: int

definition location_groups :: "event list \<Rightarrow> location_row list" where
  "location_groups df =
     map (\<lambda>((n, la, lo), g). \<lparr>loc_location_name = n, loc_latitude = la, loc_longitude = lo,
                     loc_species_count = agg_nunique ''species'' g,
                     loc_total_detections = agg_sum ''count'' g\<rparr>)
         (groupby location_key df)"

definition location_summary :: "event list \<Rightarrow> error + location_row list" where
  "location_summary df =
     (case missing_column [''location_name'', ''latitude'', ''longitude'', ''species'', ''count'']
             df of
        Some k \<Rightarrow> Inl (KeyError k)
      | None \<Rightarrow> Inr (location_groups df))"

definition get_location_summary :: "data_dir \<Rightarrow> error + (location_row list \<times> data_dir)" where
  "get_location_summary fs =
     (case load_detection_history fs of
        Inl e \<Rightarrow> Inl e
      | Inr (history, fs1) \<Rightarrow>
          (if history = [] then Inr ([], fs1)
           else (case location_summary history of
                   Inl e \<Rightarrow> Inl e
                 | Inr summary \<Rightarrow> Inr (summary, fs1))))"

text \<open>
  The Location Analysis report of \<^verbatim>\<open>app.py\<close>: grouped by the two columns
  \<^verbatim>\<open>["latitude", "longitude"]\<close>, with three aggregates.
\<close>

definition coordinates_key :: "event \<Rightarrow> (real \<times> real) option" where
  "coordinates_key e =
     (case (num_cell ''latitude'' e, num_cell ''longitude'' e) of
        (Some la, Some lo) \<Rightarrow> Some (la, lo)
      | _ \<Rightarrow> None)"

record analysis_row =
  an_latitude :: real
  an_longitude :: real
  an_unique_species :: nat
  an_total_detections :: int
  an_images_analyzed :: nat

definition analysis_groups :: "event list \<Rightarrow> analysis_row list" where
  "analysis_groups df =
     map (\<lambda>((la, lo), g). \<lparr>an_latitude = la, an_longitude = lo,
                     an_unique_species = agg_nunique ''species'' g,
                     an_total_detections = agg_sum ''count'' g,
                     an_images_analyzed = agg_nunique ''image_name'' g\<rparr>)
         (groupby coordinates_key df)"

definition location_analysis :: "event list \<Rightarrow> error + analysis_row list" where
  "location_analysis df =
     (case missing_column [''latitude'', ''longitude'', ''species'', ''count'', ''image_name'']
             df of
        Some k \<Rightarrow> Inl (KeyError k)
      | None \<Rightarrow> Inr (analysis_groups df))"

text \<open>
  The Detection Timeline report of \<^verbatim>\<open>app.py\<close>: the date of each timestamp, then
  \<^verbatim>\<open>groupby("date")\<close> with three aggregates.
\<close>

record timeline_row =
  tl_date :: date
  tl_species_count :: nat
  tl_total_detections :: int
  tl_images :: nat

definition timeline_groups :: "(datetime \<times> event) list \<Rightarrow> timeline_row list" where
  "timeline_groups ds =
     map (\<lambda>(k, g). \<lparr>tl_date = k,
                     tl_species_count = agg_nunique ''species'' (map snd g),
                     tl_total_detections = agg_sum ''count'' (map snd g),
                     tl_images = agg_nunique ''image_name'' (map snd g)\<rparr>)
         (groupby (\<lambda>(d, e). Some (fst d)) ds)"

definition detection_timeline :: "event list \<Rightarrow> error + timeline_row list" where
  "detection_timeline df =
     (if \<not> has_column ''timestamp'' df then Inl (KeyError ''timestamp'')
      else
        (case datetime_column df of
           Inl x \<Rightarrow> Inl x
         | Inr ds \<Rightarrow>
             (case missing_column [''species'', ''count'', ''image_name''] df of
                Some k \<Rightarrow> Inl (KeyError k)
              | None \<Rightarrow> Inr (timeline_groups ds))))"

section \<open>Export\<close>

text \<open>\<^verbatim>\<open>format.lower() == "csv"\<close>, for the letters of ASCII.\<close>

definition lower_char :: "char \<Rightarrow> char" where
  "lower_char c =
     (if CHR ''A'' \<le> c \<and> c \<le> CHR ''Z'' then char_of (of_char c + (32::nat)) else c)"

definition is_csv :: "string \<Rightarrow> bool" where
  "is_csv fmt = (map lower_char fmt = ''csv'')"

text \<open>
  \<^verbatim>\<open>export_detection_data\<close>. \<open>now\<close> is \<^verbatim>\<open>datetime.now().strftime("%Y%m%d_%H%M%S")\<close>.
  \<^verbatim>\<open>None\<close> is returned for an empty history only; the filters are applied when the
  bound is given; the file is written, and its path returned, whatever rows remain.
  The rows written are recorded under the path (the text of the CSV or JSON file is
  not modelled).
\<close>

definition export_detection_data ::
  "datetime option \<Rightarrow> datetime option \<Rightarrow> string \<Rightarrow> string \<Rightarrow> data_dir
     \<Rightarrow> error + (string option \<times> data_dir)" where
  "export_detection_data start_date end_date fmt now fs =
     (case load_detection_history fs of
        Inl e \<Rightarrow> Inl e
      | Inr (history, fs1) \<Rightarrow>
          (if history = [] then Inr (None, fs1)
           else
             (case datetime_column history of
                Inl e \<Rightarrow> Inl e
              | Inr df \<Rightarrow>
                  (let df1 = (case start_date of None \<Rightarrow> df
                              | Some s \<Rightarrow> filter (\<lambda>(d, e). s \<le> d) df);
                       df2 = (case end_date of None \<Rightarrow> df1
                              | Some t \<Rightarrow> filter (\<lambda>(d, e). d \<le> t) df1);
                       rows = map snd df2;
                       filename = ''detection_export_'' @ now
                                    @ (if is_csv fmt then ''.csv'' else ''.json'');
                       output_path = dir_path fs1 @ ''/'' @ filename
                   in if writable fs1
                      then Inr (Some output_path,
                                fs1\<lparr>exported := (exported fs1)(output_path \<mapsto> rows)\<rparr>)
                      else Inl IOError))))"

section \<open>The events of the data model\<close>

text \<open>
  A detection event as the application writes it: identifier, timestamp, image name,
  species and location name are strings, the timestamp in the written format; the
  count is a whole number of 64 bits and the confidence a number; latitude and
  longitude are numbers or missing. The optional descriptive keys are free.
\<close>

definition is_str :: "jval option \<Rightarrow> bool" where
  "is_str v = (case v of Some (JStr s) \<Rightarrow> True | _ \<Rightarrow> False)"

definition is_num :: "jval option \<Rightarrow> bool" where
  "is_num v = (case v of Some (JInt n) \<Rightarrow> True | Some (JNum x) \<Rightarrow> True | _ \<Rightarrow> False)"

definition is_num_or_missing :: "jval option \<Rightarrow> bool" where
  "is_num_or_missing v = (case v of None \<Rightarrow> True | Some JNull \<Rightarrow> True | _ \<Rightarrow> is_num v)"

definition valid_event :: "event \<Rightarrow> bool" where
  "valid_event e \<longleftrightarrow>
     is_str (e ''detection_id'') \<and> event_datetime e \<noteq> None \<and> is_str (e ''image_name'')
     \<and> is_str (e ''species'') \<and> is_num (e ''confidence'')
     \<and> (case e ''count'' of Some (JInt n) \<Rightarrow> - (2 ^ 63) \<le> n \<and> n < 2 ^ 63 | _ \<Rightarrow> False)
     \<and> is_num_or_missing (e ''latitude'') \<and> is_num_or_missing (e ''longitude'')
     \<and> is_str (e ''location_name'')"

section \<open>Reading the fields of an event\<close>

text \<open>
  The fields of a valid event as values, for stating what the summaries report; on
  a valid event each is the content of the column of the same name.
\<close>

definition species_of :: "event \<Rightarrow> string" where
  "species_of e = (case e ''species'' of Some (JStr s) \<Rightarrow> s | _ \<Rightarrow> [])"

definition count_of :: "event \<Rightarrow> int" where
  "count_of e = (case e ''count'' of Some (JInt n) \<Rightarrow> n | _ \<Rightarrow> 0)"

definition confidence_of :: "event \<Rightarrow> real" where
  "confidence_of e =
     (case e ''confidence'' of Some (JInt n) \<Rightarrow> of_int n | Some (JNum x) \<Rightarrow> x | _ \<Rightarrow> 0)"

definition image_of :: "event \<Rightarrow> string" where
  "image_of e = (case e ''image_name'' of Some (JStr s) \<Rightarrow> s | _ \<Rightarrow> [])"

definition datetime_of :: "event \<Rightarrow> datetime" where
  "datetime_of e =
     (case event_datetime e of Some d \<Rightarrow> d | None \<Rightarrow> ((0, 0, 0), (0, 0, 0)))"

definition date_of :: "event \<Rightarrow> date" where
  "date_of e = fst (datetime_of e)"

text \<open>The closed interval between two bounds, a bound that is not given being open.\<close>

definition in_range :: "datetime option \<Rightarrow> datetime option \<Rightarrow> event \<Rightarrow> bool" where
  "in_range start_date end_date e \<longleftrightarrow>
     (case start_date of None \<Rightarrow> True | Some s \<Rightarrow> s \<le> datetime_of e)
     \<and> (case end_date of None \<Rightarrow> True | Some t \<Rightarrow> datetime_of e \<le> t)"



section \<open>Example data\<close>

definition dir_with :: "file_state \<Rightarrow> bool \<Rightarrow> data_dir" where
  "dir_with f w = \<lparr>dir_path = ''data'', history_file = f, writable = w, exported = Map.empty\<rparr>"

text \<open>An entry of \<^verbatim>\<open>get_sample_locations()\<close>, and two records: one with a
  descriptive field, a bounding box and the location keys of another site, one with
  species and confidence only.\<close>

definition yellowstone_north :: pydict where
  "yellowstone_north =
     [''latitude'' \<mapsto> JNum (449631 / 10000), ''longitude'' \<mapsto> JNum (- 1105989 / 10000),
      ''location_name'' \<mapsto> JStr ''Yellowstone North'']"



text \<open>A stored event with the nine keys that every entry has.\<close>

definition mk_event ::
  "string \<Rightarrow> string \<Rightarrow> string \<Rightarrow> string \<Rightarrow> real \<Rightarrow> int \<Rightarrow> string \<Rightarrow> real \<Rightarrow> real \<Rightarrow> event" where
  "mk_event d t i sp cf n loc la lo =
     [''detection_id'' \<mapsto> JStr d, ''timestamp'' \<mapsto> JStr t, ''image_name'' \<mapsto> JStr i,
      ''species'' \<mapsto> JStr sp, ''confidence'' \<mapsto> JNum cf, ''count'' \<mapsto> JInt n,
      ''latitude'' \<mapsto> JNum la, ''longitude'' \<mapsto> JNum lo, ''location_name'' \<mapsto> JStr loc]"

text \<open>Two red foxes of one detection run and a coyote, on two days, the later day first.\<close>

definition fox_a :: event where
  "fox_a = mk_event ''run1'' ''2025-01-02 08:00:00'' ''a.jpg'' ''red fox'' (9 / 10) 2
             ''Grand Teton'' 43 (- 110)"

definition fox_b :: event where
  "fox_b = mk_event ''run1'' ''2025-01-01 09:30:00'' ''b.jpg'' ''red fox'' (7 / 10) 1
             ''Grand Teton'' 43 (- 110)"

definition coyote_c :: event where
  "coyote_c = mk_event ''run2'' ''2025-01-02 10:00:00'' ''b.jpg'' ''coyote'' (6 / 10) 1
             ''Grand Teton'' 44 (- 110)"

definition fox_log :: "event list" where
  "fox_log = [fox_a, fox_b, coyote_c]"

text \<open>One site name at two latitudes, and two site names at one pair of coordinates.\<close>

definition site_a :: event where
  "site_a = mk_event ''run1'' ''2025-01-01 09:30:00'' ''a.jpg'' ''red fox'' (9 / 10) 2
             ''Site A'' 43 (- 110)"

definition site_a_north :: event where
  "site_a_north = mk_event ''run2'' ''2025-01-02 08:00:00'' ''b.jpg'' ''coyote'' (6 / 10) 1
             ''Site A'' 44 (- 110)"

definition site_b :: event where
  "site_b = mk_event ''run3'' ''2025-01-02 10:00:00'' ''a.jpg'' ''No wildlife detected'' 0 0
             ''Site B'' 43 (- 110)"

definition site_log :: "event list" where
  "site_log = [site_a, site_a_north, site_b]"

text \<open>Events on 2025-01-01, 2025-01-15 and 2025-02-01.\<close>

definition jan01 :: event where
  "jan01 = mk_event ''run1'' ''2025-01-01 09:30:00'' ''a.jpg'' ''red fox'' (9 / 10) 2
             ''Site A'' 43 (- 110)"

definition jan15 :: event where
  "jan15 = mk_event ''run2'' ''2025-01-15 12:00:00'' ''b.jpg'' ''coyote'' (6 / 10) 1
             ''Site A'' 43 (- 110)"

definition feb01 :: event where
  "feb01 = mk_event ''run3'' ''2025-02-01 10:00:00'' ''c.jpg'' ''elk'' (8 / 10) 1
             ''Site A'' 43 (- 110)"

definition jan_log :: "event list" where
  "jan_log = [jan01, jan15, feb01]"

text \<open>Two sightings whose counts are 2 to the power 62 each.\<close>

definition herd_a :: event where
  "herd_a = mk_event ''run1'' ''2025-01-01 09:30:00'' ''a.jpg'' ''red fox'' (9 / 10)
              4611686018427387904 ''Site A'' 43 (- 110)"

definition herd_b :: event where
  "herd_b = mk_event ''run2'' ''2025-01-01 09:30:00'' ''b.jpg'' ''red fox'' (9 / 10)
              4611686018427387904 ''Site A'' 43 (- 110)"

definition herd_log :: "event list" where
  "herd_log = [herd_a, herd_b]"

text \<open>An event without the keys \<^verbatim>\<open>latitude\<close> and \<^verbatim>\<open>longitude\<close>.\<close>

definition unplaced :: event where
  "unplaced = (jan01(''latitude'' := None, ''longitude'' := None))"

section \<open>Facts about the history store\<close>

lemma load_writable:
  "load_detection_history fs = Inr (h, fs1) \<Longrightarrow> writable fs1 = writable fs"
  by (auto simp: load_detection_history_def split: file_state.splits if_splits)

lemma load_after_write:
  "load_detection_history (fs\<lparr>history_file := Stored h\<rparr>)
     = Inr (h, fs\<lparr>history_file := Stored h\<rparr>)"
  by (simp add: load_detection_history_def)

lemma load_dir_with:
  "load_detection_history (dir_with (Stored h) w) = Inr (h, dir_with (Stored h) w)"
  "load_detection_history (dir_with Corrupt w) = Inr ([], dir_with Corrupt w)"
  "load_detection_history (dir_with Unreadable w) = Inr ([], dir_with Unreadable w)"
  "load_detection_history (dir_with Absent True) = Inr ([], dir_with (Stored []) True)"
  "load_detection_history (dir_with Absent False) = Inl IOError"
  "load_detection_history (dir_with Undecodable w) = Inl UnicodeDecodeError"
  "load_detection_history (dir_with Too_deep w) = Inl RecursionError"
  by (simp_all add: load_detection_history_def dir_with_def)

lemma dir_with_fields:
  "writable (dir_with f w) = w"
  "history_file (dir_with f w) = f"
  "(dir_with f w)\<lparr>history_file := g\<rparr> = dir_with g w"
  by (simp_all add: dir_with_def)
















lemma load_raises_on_undecodable:
  "load_detection_history (dir_with Undecodable w) = Inl UnicodeDecodeError"
  "load_detection_history (dir_with Too_deep w) = Inl RecursionError"
  by (simp_all add: load_dir_with)

section \<open>Claims about the history store\<close>

text \<open>
  Claim C5, as the source has it by design. If the history file is absent and can be
  created, it is initialised to the empty log, the empty list is returned, and a second
  load returns the empty list again. If opening or reading the file raises an I/O
  error, or the parser raises a JSON decode error, the empty list is returned and the
  file is left as it is. If the file holds a log, the log is returned. If the file is
  absent and cannot be created, the error of the write reaches the caller. (What the
  load does on a file that raises another exception, as in
  \<open>load_raises_on_undecodable\<close>, is a defect by the comment of the source, and is
  no part of this statement.)
\<close>

theorem load_fails_open:
  "(history_file fs = Absent \<and> writable fs \<longrightarrow>
        load_detection_history fs = Inr ([], fs\<lparr>history_file := Stored []\<rparr>)
        \<and> load_detection_history (fs\<lparr>history_file := Stored []\<rparr>)
            = Inr ([], fs\<lparr>history_file := Stored []\<rparr>))
   \<and> (history_file fs = Unreadable \<or> history_file fs = Corrupt \<longrightarrow>
        load_detection_history fs = Inr ([], fs))
   \<and> (\<forall>h. history_file fs = Stored h \<longrightarrow> load_detection_history fs = Inr (h, fs))
   \<and> (history_file fs = Absent \<and> \<not> writable fs \<longrightarrow> load_detection_history fs = Inl IOError)"
  by (auto simp: load_detection_history_def split: file_state.splits)

text \<open>The cases of C5 on an absent file that can be created, a corrupt file and an
  unreadable file (the last two in a directory that cannot be written), a log, and an
  absent file that cannot be created.\<close>

theorem load_fails_open_witness:
  "load_detection_history (dir_with Absent True) = Inr ([], dir_with (Stored []) True)
   \<and> load_detection_history (dir_with (Stored []) True) = Inr ([], dir_with (Stored []) True)
   \<and> load_detection_history (dir_with Corrupt False) = Inr ([], dir_with Corrupt False)
   \<and> load_detection_history (dir_with Unreadable False) = Inr ([], dir_with Unreadable False)
   \<and> load_detection_history (dir_with (Stored jan_log) False)
       = Inr (jan_log, dir_with (Stored jan_log) False)
   \<and> load_detection_history (dir_with Absent False) = Inl IOError"
  using load_fails_open [of "dir_with Absent True"] load_fails_open [of "dir_with Corrupt False"]
    load_fails_open [of "dir_with Unreadable False"]
    load_fails_open [of "dir_with (Stored jan_log) False"]
    load_fails_open [of "dir_with Absent False"]
  by (simp add: dir_with_fields)

text \<open>C5 as stated fails: with no history file in a directory that cannot be written,
  the load raises.\<close>

theorem load_raises_when_uncreatable:
  "load_detection_history (dir_with Absent False) = Inl IOError"
  by (simp add: load_detection_history_def dir_with_def)



text \<open>
  Claim C9: \<^verbatim>\<open>clear_detection_history\<close> returns a boolean and never raises. It
  returns true exactly when the file can be written, and then the file holds the empty
  log and a load returns the empty list whatever the log held; it returns false when
  the file cannot be written, and then nothing has changed.
\<close>

theorem clear_then_load:
  "fst (clear_detection_history fs) = writable fs
   \<and> (fst (clear_detection_history fs) \<longrightarrow>
        history_file (snd (clear_detection_history fs)) = Stored []
        \<and> load_detection_history (snd (clear_detection_history fs))
            = Inr ([], snd (clear_detection_history fs)))
   \<and> (\<not> fst (clear_detection_history fs) \<longrightarrow> snd (clear_detection_history fs) = fs)"
  by (simp add: clear_detection_history_def load_detection_history_def)

text \<open>C9 on a log of three events, in a directory that can be written and in one that
  cannot.\<close>

theorem clear_then_load_witness:
  "clear_detection_history (dir_with (Stored jan_log) True) = (True, dir_with (Stored []) True)
   \<and> load_detection_history (dir_with (Stored []) True) = Inr ([], dir_with (Stored []) True)
   \<and> clear_detection_history (dir_with (Stored jan_log) False)
       = (False, dir_with (Stored jan_log) False)"
  using clear_then_load [of "dir_with (Stored jan_log) True"]
    clear_then_load [of "dir_with (Stored jan_log) False"]
  by (simp add: clear_detection_history_def dir_with_fields load_dir_with)

text \<open>
  Claim C10, as the source has it by design: saving an empty list of records leaves the
  log as the load finds it. Whenever the load returns a log and the file can be
  written, the save returns, the file is rewritten with the events that the load
  returned, and a load afterwards returns the same list; when the load returns a log
  and the file cannot be written, the save raises the error of the write.
\<close>

theorem append_nothing:
  assumes "load_detection_history fs = Inr (prior, fs1)"
  shows "(writable fs \<longrightarrow>
      save_detection_results d t i l [] fs = Inr (fs1\<lparr>history_file := Stored prior\<rparr>)
      \<and> load_detection_history (fs1\<lparr>history_file := Stored prior\<rparr>)
          = Inr (prior, fs1\<lparr>history_file := Stored prior\<rparr>))
   \<and> (\<not> writable fs \<longrightarrow> save_detection_results d t i l [] fs = Inl IOError)"
  using assms load_writable [OF assms]
  by (simp add: save_detection_results_def load_after_write)

text \<open>C10 on a log of three events and on a corrupt file, both writable, and on an
  empty log that cannot be written.\<close>

theorem append_nothing_witness:
  "save_detection_results ''run9'' ''2025-03-01 07:00:00'' ''z.jpg'' yellowstone_north []
       (dir_with (Stored jan_log) True) = Inr (dir_with (Stored jan_log) True)
   \<and> load_detection_history (dir_with (Stored jan_log) True)
       = Inr (jan_log, dir_with (Stored jan_log) True)
   \<and> save_detection_results ''run9'' ''2025-03-01 07:00:00'' ''z.jpg'' yellowstone_north []
       (dir_with Corrupt True) = Inr (dir_with (Stored []) True)
   \<and> save_detection_results ''run9'' ''2025-03-01 07:00:00'' ''z.jpg'' yellowstone_north []
       (dir_with (Stored []) False) = Inl IOError"
  using append_nothing [OF load_dir_with(1), of jan_log True "''run9''" "''2025-03-01 07:00:00''"
      "''z.jpg''" yellowstone_north]
    append_nothing [OF load_dir_with(2), of True "''run9''" "''2025-03-01 07:00:00''"
      "''z.jpg''" yellowstone_north]
    append_nothing [OF load_dir_with(1), of "[]" False "''run9''" "''2025-03-01 07:00:00''"
      "''z.jpg''" yellowstone_north]
  by (simp add: dir_with_fields load_dir_with)

text \<open>C10 as stated fails: in a directory that cannot be written, saving no record
  raises.\<close>

theorem append_nothing_raises_when_unwritable:
  "save_detection_results ''run9'' ''2025-03-01 07:00:00'' ''z.jpg'' yellowstone_north []
     (dir_with (Stored jan_log) False) = Inl IOError"
  by (simp add: save_detection_results_def load_dir_with dir_with_fields)




section \<open>Facts about data frames\<close>

lemma mk_event_cells:
  "str_cell ''species'' (mk_event d t i sp cf n loc la lo) = Some sp"
  "str_cell ''timestamp'' (mk_event d t i sp cf n loc la lo) = Some t"
  "str_cell ''location_name'' (mk_event d t i sp cf n loc la lo) = Some loc"
  "int_cell ''count'' (mk_event d t i sp cf n loc la lo) = Some n"
  "num_cell ''confidence'' (mk_event d t i sp cf n loc la lo) = Some cf"
  "num_cell ''latitude'' (mk_event d t i sp cf n loc la lo) = Some la"
  "num_cell ''longitude'' (mk_event d t i sp cf n loc la lo) = Some lo"
  "cell ''detection_id'' (mk_event d t i sp cf n loc la lo) = Some (JStr d)"
  "cell ''species'' (mk_event d t i sp cf n loc la lo) = Some (JStr sp)"
  "cell ''image_name'' (mk_event d t i sp cf n loc la lo) = Some (JStr i)"
  by (simp_all add: mk_event_def str_cell_def int_cell_def num_cell_def cell_def)

lemma to_datetime_examples:
  "to_datetime ''2025-01-02 08:00:00'' = Some ((2025, 1, 2), (8, 0, 0))"
  "to_datetime ''2025-01-01 09:30:00'' = Some ((2025, 1, 1), (9, 30, 0))"
  "to_datetime ''2025-01-02 10:00:00'' = Some ((2025, 1, 2), (10, 0, 0))"
  "to_datetime ''2025-01-15 12:00:00'' = Some ((2025, 1, 15), (12, 0, 0))"
  "to_datetime ''2025-02-01 10:00:00'' = Some ((2025, 2, 1), (10, 0, 0))"
  by (simp_all add: to_datetime_def digit_def days_in_month_def)

lemma valid_mk_event:
  "to_datetime t \<noteq> None \<Longrightarrow> - (2 ^ 63) \<le> n \<Longrightarrow> n < 2 ^ 63 \<Longrightarrow>
   valid_event (mk_event d t i sp cf n loc la lo)"
  by (simp add: valid_event_def event_datetime_def mk_event_cells)
    (simp add: mk_event_def is_str_def is_num_def is_num_or_missing_def)

lemma map_filter_total:
  "\<forall>x\<in>set xs. f x = Some (g x) \<Longrightarrow> List.map_filter f xs = map g xs"
  by (induction xs) simp_all

lemma set_map_filter: "set (List.map_filter f xs) = {y. \<exists>x\<in>set xs. f x = Some y}"
  by (induction xs) (auto split: option.splits)

lemma groupby_keys: "map fst (groupby key df) = sort (remdups (List.map_filter key df))"
  by (simp add: groupby_def comp_def)

lemma groupby_keys_set: "fst ` set (groupby key df) = {k. \<exists>r\<in>set df. key r = Some k}"
proof -
  have "fst ` set (groupby key df) = set (map fst (groupby key df))" by simp
  also have "\<dots> = {k. \<exists>r\<in>set df. key r = Some k}"
    unfolding groupby_keys by (simp add: set_map_filter)
  finally show ?thesis .
qed

lemma groupby_distinct: "distinct (map fst (groupby key df))"
  unfolding groupby_keys by simp

lemma groupby_sorted: "sorted (map fst (groupby key df))"
  unfolding groupby_keys by simp

lemma groupby_group:
  "(k, g) \<in> set (groupby key df) \<Longrightarrow> g = filter (\<lambda>r. key r = Some k) df \<and> g \<noteq> []"
  by (auto simp: groupby_def set_map_filter filter_empty_conv)

lemma length_map_filter_all:
  "\<forall>x\<in>set xs. f x \<noteq> None \<Longrightarrow> length (List.map_filter f xs) = length xs"
  by (induction xs) (auto split: option.splits)

lemma valid_event_cells:
  assumes "valid_event e"
  shows "str_cell ''species'' e = Some (species_of e)"
    and "int_cell ''count'' e = Some (count_of e)"
    and "num_cell ''confidence'' e = Some (confidence_of e)"
    and "cell ''detection_id'' e \<noteq> None"
  using assms
  by (auto simp: valid_event_def is_str_def is_num_def str_cell_def int_cell_def num_cell_def
      cell_def species_of_def count_of_def confidence_of_def split: option.splits jval.splits)

lemma valid_event_cells2:
  assumes "valid_event e"
  shows "cell ''species'' e = Some (JStr (species_of e))"
    and "cell ''image_name'' e = Some (JStr (image_of e))"
  using assms
  by (auto simp: valid_event_def is_str_def cell_def species_of_def image_of_def
      split: option.splits jval.splits)

lemma int64_id: "- (2 ^ 63) \<le> n \<Longrightarrow> n < 2 ^ 63 \<Longrightarrow> int64 n = n"
  by (simp add: int64_def)

lemma int64_add_left: "int64 (int64 a + n) = int64 (a + n)"
proof -
  have "(int64 a + n + 2 ^ 63) mod 2 ^ 64 = ((a + 2 ^ 63) mod 2 ^ 64 + n) mod (2 ^ 64 :: int)"
    by (simp add: int64_def)
  also have "\<dots> = (a + 2 ^ 63 + n) mod 2 ^ 64"
    by (rule mod_add_left_eq)
  also have "a + 2 ^ 63 + n = a + n + (2 ^ 63 :: int)"
    by (simp only: add.assoc add.commute [of "2 ^ 63" n])
  finally have h: "(int64 a + n + 2 ^ 63) mod 2 ^ 64 = (a + n + 2 ^ 63) mod (2 ^ 64 :: int)" .
  show ?thesis
    by (simp only: int64_def [of "int64 a + n"] int64_def [of "a + n"] h)
qed

lemma fold_int64:
  "fold (\<lambda>n acc. int64 (acc + n)) xs (int64 a) = int64 (a + sum_list xs)"
proof (induction xs arbitrary: a)
  case Nil
  then show ?case by simp
next
  case (Cons x xs)
  have "fold (\<lambda>n acc. int64 (acc + n)) (x # xs) (int64 a)
          = fold (\<lambda>n acc. int64 (acc + n)) xs (int64 (a + x))"
    by (simp add: int64_add_left)
  also have "\<dots> = int64 (a + x + sum_list xs)" by (rule Cons.IH)
  finally show ?case by (simp add: add.assoc)
qed

lemma agg_sum_valid:
  assumes "\<forall>e\<in>set g. valid_event e"
  shows "agg_sum ''count'' g = int64 (sum_list (map count_of g))"
proof -
  have "List.map_filter (int_cell ''count'') g = map count_of g"
    by (rule map_filter_total) (simp add: assms valid_event_cells)
  moreover have "int64 0 = 0" by (simp add: int64_def)
  ultimately show ?thesis
    using fold_int64 [of "map count_of g" 0] by (simp add: agg_sum_def)
qed

lemma agg_mean_valid:
  assumes "\<forall>e\<in>set g. valid_event e" and "g \<noteq> []"
  shows "agg_mean ''confidence'' g = Some (sum_list (map confidence_of g) / real (length g))"
proof -
  have "List.map_filter (num_cell ''confidence'') g = map confidence_of g"
    by (rule map_filter_total) (simp add: assms valid_event_cells)
  then show ?thesis using assms(2) by (simp add: agg_mean_def)
qed

lemma agg_count_valid:
  assumes "\<forall>e\<in>set g. valid_event e"
  shows "agg_count ''detection_id'' g = length g"
  unfolding agg_count_def
  by (rule length_map_filter_all) (simp add: assms valid_event_cells)

lemma agg_nunique_species_valid:
  assumes "\<forall>e\<in>set g. valid_event e"
  shows "agg_nunique ''species'' g = card (species_of ` set g)"
proof -
  have "List.map_filter (cell ''species'') g = map (\<lambda>e. JStr (species_of e)) g"
    by (rule map_filter_total) (simp add: assms valid_event_cells2)
  then have "agg_nunique ''species'' g = card ((\<lambda>e. JStr (species_of e)) ` set g)"
    by (simp add: agg_nunique_def length_remdups_card_conv)
  also have "(\<lambda>e. JStr (species_of e)) ` set g = JStr ` species_of ` set g"
    by (simp add: image_image)
  also have "card \<dots> = card (species_of ` set g)"
    by (rule card_image) (simp add: inj_on_def)
  finally show ?thesis .
qed

lemma agg_nunique_image_valid:
  assumes "\<forall>e\<in>set g. valid_event e"
  shows "agg_nunique ''image_name'' g = card (image_of ` set g)"
proof -
  have "List.map_filter (cell ''image_name'') g = map (\<lambda>e. JStr (image_of e)) g"
    by (rule map_filter_total) (simp add: assms valid_event_cells2)
  then have "agg_nunique ''image_name'' g = card ((\<lambda>e. JStr (image_of e)) ` set g)"
    by (simp add: agg_nunique_def length_remdups_card_conv)
  also have "(\<lambda>e. JStr (image_of e)) ` set g = JStr ` image_of ` set g"
    by (simp add: image_image)
  also have "card \<dots> = card (image_of ` set g)"
    by (rule card_image) (simp add: inj_on_def)
  finally show ?thesis .
qed

lemma species_group_valid:
  "\<forall>e\<in>set df. valid_event e \<Longrightarrow>
   filter (\<lambda>e. str_cell ''species'' e = Some k) df = filter (\<lambda>e. species_of e = k) df"
  by (rule filter_cong) (auto simp: valid_event_cells)

lemma species_groups_species:
  "map sp_species (species_groups df) = map fst (groupby (str_cell ''species'') df)"
  by (simp add: species_groups_def comp_def case_prod_unfold)

lemma species_groups_row:
  assumes "r \<in> set (species_groups df)"
  shows "\<exists>g. (sp_species r, g) \<in> set (groupby (str_cell ''species'') df)
           \<and> sp_total_count r = agg_sum ''count'' g
           \<and> sp_avg_confidence r = agg_mean ''confidence'' g
           \<and> sp_detections r = agg_count ''detection_id'' g"
  using assms by (auto simp: species_groups_def)

lemma location_groups_row:
  assumes "r \<in> set (location_groups df)"
  shows "\<exists>g. ((loc_location_name r, loc_latitude r, loc_longitude r), g)
               \<in> set (groupby location_key df)
           \<and> loc_species_count r = agg_nunique ''species'' g
           \<and> loc_total_detections r = agg_sum ''count'' g"
  using assms by (auto simp: location_groups_def)

lemma location_groups_keys:
  "map (\<lambda>r. (loc_location_name r, loc_latitude r, loc_longitude r)) (location_groups df)
     = map fst (groupby location_key df)"
  by (simp add: location_groups_def comp_def case_prod_unfold)

lemma analysis_groups_row:
  assumes "r \<in> set (analysis_groups df)"
  shows "\<exists>g. ((an_latitude r, an_longitude r), g) \<in> set (groupby coordinates_key df)
           \<and> an_unique_species r = agg_nunique ''species'' g
           \<and> an_total_detections r = agg_sum ''count'' g
           \<and> an_images_analyzed r = agg_nunique ''image_name'' g"
  using assms by (auto simp: analysis_groups_def)

lemma analysis_groups_keys:
  "map (\<lambda>r. (an_latitude r, an_longitude r)) (analysis_groups df)
     = map fst (groupby coordinates_key df)"
  by (simp add: analysis_groups_def comp_def case_prod_unfold)

lemma datetime_column_valid:
  "\<forall>e\<in>set h. valid_event e \<Longrightarrow> datetime_column h = Inr (map (\<lambda>e. (datetime_of e, e)) h)"
  by (induction h) (auto simp: valid_event_def datetime_of_def)

lemma snd_filter_paired:
  "map snd (filter (\<lambda>p. P (fst p)) (map (\<lambda>e. (f e, e)) h)) = filter (\<lambda>e. P (f e)) h"
  by (induction h) simp_all

lemma timeline_group:
  assumes "(k, g) \<in> set (groupby (\<lambda>(d, e). Some (fst d)) (map (\<lambda>e. (datetime_of e, e)) h))"
  shows "map snd g = filter (\<lambda>e. date_of e = k) h"
proof -
  from groupby_group [OF assms]
  have "g = filter (\<lambda>p. fst (fst p) = k) (map (\<lambda>e. (datetime_of e, e)) h)"
    by (simp add: case_prod_unfold)
  then show ?thesis
    using snd_filter_paired [of "\<lambda>d. fst d = k" datetime_of h] by (simp add: date_of_def)
qed

lemma timeline_keys:
  "fst ` set (groupby (\<lambda>(d, e). Some (fst d)) (map (\<lambda>e. (datetime_of e, e)) h)) = date_of ` set h"
proof -
  have "{k. \<exists>r\<in>set (map (\<lambda>e. (datetime_of e, e)) h). (case r of (d, e) \<Rightarrow> Some (fst d)) = Some k}
          = date_of ` set h"
    by (force simp: date_of_def)
  then show ?thesis unfolding groupby_keys_set .
qed

lemma datetime_column_parsed:
  "\<forall>e\<in>set h. event_datetime e \<noteq> None \<Longrightarrow>
   datetime_column h = Inr (map (\<lambda>e. (datetime_of e, e)) h)"
  by (induction h) (auto simp: datetime_of_def)

lemma has_column_iff: "has_column k df \<longleftrightarrow> (\<exists>e\<in>set df. e k \<noteq> None)"
  by (simp add: has_column_def list_ex_iff)

lemma valid_columns:
  assumes "\<forall>e\<in>set df. valid_event e" and "df \<noteq> []"
  shows "has_column ''detection_id'' df" "has_column ''timestamp'' df"
    "has_column ''image_name'' df" "has_column ''species'' df" "has_column ''confidence'' df"
    "has_column ''count'' df" "has_column ''location_name'' df"
proof -
  from assms(2) obtain e where e: "e \<in> set df" by (cases df) auto
  with assms(1) have v: "valid_event e" by blast
  then have "e ''detection_id'' \<noteq> None \<and> e ''timestamp'' \<noteq> None \<and> e ''image_name'' \<noteq> None
      \<and> e ''species'' \<noteq> None \<and> e ''confidence'' \<noteq> None \<and> e ''count'' \<noteq> None
      \<and> e ''location_name'' \<noteq> None"
    by (auto simp: valid_event_def is_str_def is_num_def event_datetime_def str_cell_def cell_def
        split: option.splits jval.splits)
  with e show "has_column ''detection_id'' df" "has_column ''timestamp'' df"
    "has_column ''image_name'' df" "has_column ''species'' df" "has_column ''confidence'' df"
    "has_column ''count'' df" "has_column ''location_name'' df"
    unfolding has_column_iff by blast+
qed

lemma species_summary_valid:
  assumes "\<forall>e\<in>set df. valid_event e" and "df \<noteq> []"
  shows "species_summary df = Inr (species_groups df)"
  using valid_columns [OF assms] by (simp add: species_summary_def)

lemma location_summary_valid:
  assumes "\<forall>e\<in>set df. valid_event e" and "df \<noteq> []"
  shows "location_summary df =
     (if \<not> has_column ''latitude'' df then Inl (KeyError ''latitude'')
      else if \<not> has_column ''longitude'' df then Inl (KeyError ''longitude'')
      else Inr (location_groups df))"
  using valid_columns [OF assms] by (simp add: location_summary_def)

lemma location_analysis_valid:
  assumes "\<forall>e\<in>set df. valid_event e" and "df \<noteq> []"
  shows "location_analysis df =
     (if \<not> has_column ''latitude'' df then Inl (KeyError ''latitude'')
      else if \<not> has_column ''longitude'' df then Inl (KeyError ''longitude'')
      else Inr (analysis_groups df))"
  using valid_columns [OF assms] by (simp add: location_analysis_def)

lemma detection_timeline_valid:
  assumes "\<forall>e\<in>set df. valid_event e" and "df \<noteq> []"
  shows "detection_timeline df = Inr (timeline_groups (map (\<lambda>e. (datetime_of e, e)) df))"
  using valid_columns [OF assms]
  by (simp add: detection_timeline_def datetime_column_valid [OF assms(1)])

lemma location_groups_facts:
  assumes "\<forall>e\<in>set history. valid_event e"
  shows "(\<forall>k. (\<exists>r\<in>set (location_groups history).
                  (loc_location_name r, loc_latitude r, loc_longitude r) = k)
              \<longleftrightarrow> (\<exists>e\<in>set history. location_key e = Some k))"
    and "distinct (map (\<lambda>r. (loc_location_name r, loc_latitude r, loc_longitude r))
                    (location_groups history))"
    and "\<forall>r\<in>set (location_groups history).
          let g = filter (\<lambda>e. location_key e
                              = Some (loc_location_name r, loc_latitude r, loc_longitude r)) history
          in loc_species_count r = card (species_of ` set g)
             \<and> loc_total_detections r = int64 (sum_list (map count_of g))"
proof -
  show "\<forall>k. (\<exists>r\<in>set (location_groups history).
                  (loc_location_name r, loc_latitude r, loc_longitude r) = k)
              \<longleftrightarrow> (\<exists>e\<in>set history. location_key e = Some k)"
  proof
    fix k
    have "(\<exists>r\<in>set (location_groups history).
              (loc_location_name r, loc_latitude r, loc_longitude r) = k)
          \<longleftrightarrow> k \<in> set (map (\<lambda>r. (loc_location_name r, loc_latitude r, loc_longitude r))
                           (location_groups history))"
      by force
    also have "\<dots> \<longleftrightarrow> k \<in> fst ` set (groupby location_key history)"
      unfolding location_groups_keys by simp
    finally show "(\<exists>r\<in>set (location_groups history).
              (loc_location_name r, loc_latitude r, loc_longitude r) = k)
          \<longleftrightarrow> (\<exists>e\<in>set history. location_key e = Some k)"
      unfolding groupby_keys_set by simp
  qed
  show "distinct (map (\<lambda>r. (loc_location_name r, loc_latitude r, loc_longitude r))
                    (location_groups history))"
    unfolding location_groups_keys by (rule groupby_distinct)
  show "\<forall>r\<in>set (location_groups history).
          let g = filter (\<lambda>e. location_key e
                              = Some (loc_location_name r, loc_latitude r, loc_longitude r)) history
          in loc_species_count r = card (species_of ` set g)
             \<and> loc_total_detections r = int64 (sum_list (map count_of g))"
  proof
    fix r assume "r \<in> set (location_groups history)"
    from location_groups_row [OF this] obtain g where
      g: "((loc_location_name r, loc_latitude r, loc_longitude r), g)
            \<in> set (groupby location_key history)"
      and r: "loc_species_count r = agg_nunique ''species'' g"
        "loc_total_detections r = agg_sum ''count'' g"
      by blast
    from groupby_group [OF g]
    have g_eq: "g = filter (\<lambda>e. location_key e
                   = Some (loc_location_name r, loc_latitude r, loc_longitude r)) history"
      by blast
    have val: "\<forall>e\<in>set g. valid_event e" using assms g_eq by simp
    show "let g = filter (\<lambda>e. location_key e
                              = Some (loc_location_name r, loc_latitude r, loc_longitude r)) history
          in loc_species_count r = card (species_of ` set g)
             \<and> loc_total_detections r = int64 (sum_list (map count_of g))"
      unfolding Let_def g_eq [symmetric]
      using r agg_nunique_species_valid [OF val] agg_sum_valid [OF val] by simp
  qed
qed

lemma analysis_groups_facts:
  assumes "\<forall>e\<in>set history. valid_event e"
  shows "(\<forall>k. (\<exists>r\<in>set (analysis_groups history). (an_latitude r, an_longitude r) = k)
              \<longleftrightarrow> (\<exists>e\<in>set history. coordinates_key e = Some k))"
    and "distinct (map (\<lambda>r. (an_latitude r, an_longitude r)) (analysis_groups history))"
    and "\<forall>r\<in>set (analysis_groups history).
          let g = filter (\<lambda>e. coordinates_key e = Some (an_latitude r, an_longitude r)) history
          in an_unique_species r = card (species_of ` set g)
             \<and> an_total_detections r = int64 (sum_list (map count_of g))
             \<and> an_images_analyzed r = card (image_of ` set g)"
proof -
  show "\<forall>k. (\<exists>r\<in>set (analysis_groups history). (an_latitude r, an_longitude r) = k)
              \<longleftrightarrow> (\<exists>e\<in>set history. coordinates_key e = Some k)"
  proof
    fix k
    have "(\<exists>r\<in>set (analysis_groups history). (an_latitude r, an_longitude r) = k)
          \<longleftrightarrow> k \<in> set (map (\<lambda>r. (an_latitude r, an_longitude r)) (analysis_groups history))"
      by force
    also have "\<dots> \<longleftrightarrow> k \<in> fst ` set (groupby coordinates_key history)"
      unfolding analysis_groups_keys by simp
    finally show "(\<exists>r\<in>set (analysis_groups history). (an_latitude r, an_longitude r) = k)
          \<longleftrightarrow> (\<exists>e\<in>set history. coordinates_key e = Some k)"
      unfolding groupby_keys_set by simp
  qed
  show "distinct (map (\<lambda>r. (an_latitude r, an_longitude r)) (analysis_groups history))"
    unfolding analysis_groups_keys by (rule groupby_distinct)
  show "\<forall>r\<in>set (analysis_groups history).
          let g = filter (\<lambda>e. coordinates_key e = Some (an_latitude r, an_longitude r)) history
          in an_unique_species r = card (species_of ` set g)
             \<and> an_total_detections r = int64 (sum_list (map count_of g))
             \<and> an_images_analyzed r = card (image_of ` set g)"
  proof
    fix r assume "r \<in> set (analysis_groups history)"
    from analysis_groups_row [OF this] obtain g where
      g: "((an_latitude r, an_longitude r), g) \<in> set (groupby coordinates_key history)"
      and r: "an_unique_species r = agg_nunique ''species'' g"
        "an_total_detections r = agg_sum ''count'' g"
        "an_images_analyzed r = agg_nunique ''image_name'' g"
      by blast
    from groupby_group [OF g]
    have g_eq: "g = filter (\<lambda>e. coordinates_key e = Some (an_latitude r, an_longitude r)) history"
      by blast
    have val: "\<forall>e\<in>set g. valid_event e" using assms g_eq by simp
    show "let g = filter (\<lambda>e. coordinates_key e = Some (an_latitude r, an_longitude r)) history
          in an_unique_species r = card (species_of ` set g)
             \<and> an_total_detections r = int64 (sum_list (map count_of g))
             \<and> an_images_analyzed r = card (image_of ` set g)"
      unfolding Let_def g_eq [symmetric]
      using r agg_nunique_species_valid [OF val] agg_sum_valid [OF val]
        agg_nunique_image_valid [OF val] by simp
  qed
qed

lemma example_logs_valid:
  "valid_event fox_a" "valid_event fox_b" "valid_event coyote_c"
  "valid_event site_a" "valid_event site_a_north" "valid_event site_b"
  "valid_event jan01" "valid_event jan15" "valid_event feb01"
  "valid_event herd_a" "valid_event herd_b"
  by (simp_all add: fox_a_def fox_b_def coyote_c_def site_a_def site_a_north_def site_b_def
      jan01_def jan15_def feb01_def herd_a_def herd_b_def valid_mk_event to_datetime_examples)

lemma example_logs_all_valid:
  "\<forall>e\<in>set fox_log. valid_event e" "\<forall>e\<in>set site_log. valid_event e"
  "\<forall>e\<in>set jan_log. valid_event e" "\<forall>e\<in>set herd_log. valid_event e"
  by (simp_all add: fox_log_def site_log_def jan_log_def herd_log_def example_logs_valid)

lemma example_logs_not_Nil:
  "fox_log \<noteq> []" "site_log \<noteq> []" "jan_log \<noteq> []" "herd_log \<noteq> []"
  by (simp_all add: fox_log_def site_log_def jan_log_def herd_log_def)

lemma count_of_mk_event: "count_of (mk_event d t i sp cf n loc la lo) = n"
  by (simp add: count_of_def mk_event_def)

lemma fox_groups:
  "species_groups fox_log =
     [\<lparr>sp_species = ''coyote'', sp_total_count = 1, sp_avg_confidence = Some (6 / 10),
       sp_detections = 1\<rparr>,
      \<lparr>sp_species = ''red fox'', sp_total_count = 3, sp_avg_confidence = Some (8 / 10),
       sp_detections = 2\<rparr>]"
  by (simp add: species_groups_def groupby_def fox_log_def fox_a_def fox_b_def coyote_c_def
      mk_event_cells agg_sum_def int64_def agg_mean_def agg_count_def)

lemma fox_summary:
  "species_summary fox_log =
     Inr [\<lparr>sp_species = ''coyote'', sp_total_count = 1, sp_avg_confidence = Some (6 / 10),
           sp_detections = 1\<rparr>,
          \<lparr>sp_species = ''red fox'', sp_total_count = 3, sp_avg_confidence = Some (8 / 10),
           sp_detections = 2\<rparr>]"
  by (simp add: species_summary_valid [OF example_logs_all_valid(1) example_logs_not_Nil(1)]
      fox_groups)

lemma herd_summary:
  "species_summary herd_log =
     Inr [\<lparr>sp_species = ''red fox'', sp_total_count = - 9223372036854775808,
           sp_avg_confidence = Some (9 / 10), sp_detections = 2\<rparr>]"
  unfolding species_summary_valid [OF example_logs_all_valid(4) example_logs_not_Nil(4)]
  by (simp add: species_groups_def groupby_def herd_log_def herd_a_def herd_b_def
      mk_event_cells agg_sum_def int64_def agg_mean_def agg_count_def)

lemma herd_counts: "sum_list (map count_of herd_log) = 9223372036854775808"
  by (simp add: herd_log_def herd_a_def herd_b_def count_of_mk_event)

lemma site_columns: "has_column ''latitude'' site_log" "has_column ''longitude'' site_log"
  by (simp_all add: has_column_def site_log_def site_a_def mk_event_def)

lemma site_summary:
  "location_summary site_log =
     Inr [\<lparr>loc_location_name = ''Site A'', loc_latitude = 43, loc_longitude = - 110,
           loc_species_count = 1, loc_total_detections = 2\<rparr>,
          \<lparr>loc_location_name = ''Site A'', loc_latitude = 44, loc_longitude = - 110,
           loc_species_count = 1, loc_total_detections = 1\<rparr>,
          \<lparr>loc_location_name = ''Site B'', loc_latitude = 43, loc_longitude = - 110,
           loc_species_count = 1, loc_total_detections = 0\<rparr>]"
  unfolding location_summary_valid [OF example_logs_all_valid(2) example_logs_not_Nil(2)]
  by (simp add: site_columns)
    (simp add: location_groups_def groupby_def site_log_def site_a_def site_a_north_def
      site_b_def mk_event_cells location_key_def agg_sum_def int64_def agg_nunique_def)

lemma site_analysis:
  "location_analysis site_log =
     Inr [\<lparr>an_latitude = 43, an_longitude = - 110, an_unique_species = 2,
           an_total_detections = 2, an_images_analyzed = 1\<rparr>,
          \<lparr>an_latitude = 44, an_longitude = - 110, an_unique_species = 1,
           an_total_detections = 1, an_images_analyzed = 1\<rparr>]"
  unfolding location_analysis_valid [OF example_logs_all_valid(2) example_logs_not_Nil(2)]
  by (simp add: site_columns)
    (simp add: analysis_groups_def groupby_def site_log_def site_a_def site_a_north_def
      site_b_def mk_event_cells coordinates_key_def agg_sum_def int64_def agg_nunique_def)

lemma site_keys:
  "location_key site_a = Some (''Site A'', 43, - 110)"
  "location_key site_a_north = Some (''Site A'', 44, - 110)"
  "location_key site_b = Some (''Site B'', 43, - 110)"
  by (simp_all add: location_key_def site_a_def site_a_north_def site_b_def mk_event_cells)

lemma valid_unplaced: "valid_event unplaced"
  using example_logs_valid(7)
  by (simp add: unplaced_def valid_event_def event_datetime_def str_cell_def cell_def
      is_num_or_missing_def)

lemma unplaced_summary:
  "location_summary [unplaced] = Inl (KeyError ''latitude'')"
  "location_analysis [unplaced] = Inl (KeyError ''latitude'')"
  by (simp_all add: location_summary_def location_analysis_def has_column_def unplaced_def
      jan01_def mk_event_def)

lemma fox_timeline:
  "detection_timeline fox_log =
     Inr [\<lparr>tl_date = (2025, 1, 1), tl_species_count = 1, tl_total_detections = 1,
           tl_images = 1\<rparr>,
          \<lparr>tl_date = (2025, 1, 2), tl_species_count = 2, tl_total_detections = 3,
           tl_images = 2\<rparr>]"
  unfolding detection_timeline_valid [OF example_logs_all_valid(1) example_logs_not_Nil(1)]
  by (simp add: timeline_groups_def groupby_def fox_log_def fox_a_def fox_b_def coyote_c_def
      mk_event_cells datetime_of_def event_datetime_def to_datetime_examples agg_sum_def
      int64_def agg_nunique_def)

lemma fox_timeline_reversed:
  "detection_timeline (rev fox_log) = detection_timeline fox_log"
proof -
  have v: "\<forall>e\<in>set (rev fox_log). valid_event e" and n: "rev fox_log \<noteq> []"
    using example_logs_all_valid(1) example_logs_not_Nil(1) by simp_all
  show ?thesis
    unfolding fox_timeline detection_timeline_valid [OF v n]
    by (simp add: timeline_groups_def groupby_def fox_log_def fox_a_def fox_b_def coyote_c_def
      mk_event_cells datetime_of_def event_datetime_def to_datetime_examples agg_sum_def
      int64_def agg_nunique_def)
qed

lemma herd_timeline:
  "detection_timeline herd_log =
     Inr [\<lparr>tl_date = (2025, 1, 1), tl_species_count = 1,
           tl_total_detections = - 9223372036854775808, tl_images = 2\<rparr>]"
  unfolding detection_timeline_valid [OF example_logs_all_valid(4) example_logs_not_Nil(4)]
  by (simp add: timeline_groups_def groupby_def herd_log_def herd_a_def herd_b_def
      mk_event_cells datetime_of_def event_datetime_def to_datetime_examples to_datetime_def
      digit_def days_in_month_def agg_sum_def int64_def agg_nunique_def)

lemma get_species_summary_loaded:
  "load_detection_history fs = Inr (history, fs1) \<Longrightarrow>
   get_species_summary fs =
     (if history = [] then Inr ([], fs1)
      else (case species_summary history of Inl x \<Rightarrow> Inl x | Inr rows \<Rightarrow> Inr (rows, fs1)))"
  by (simp add: get_species_summary_def)

lemma get_location_summary_loaded:
  "load_detection_history fs = Inr (history, fs1) \<Longrightarrow>
   get_location_summary fs =
     (if history = [] then Inr ([], fs1)
      else (case location_summary history of Inl x \<Rightarrow> Inl x | Inr rows \<Rightarrow> Inr (rows, fs1)))"
  by (simp add: get_location_summary_def)

lemma species_groups_facts:
  assumes "\<forall>e\<in>set history. valid_event e"
  shows "\<forall>s. (\<exists>r\<in>set (species_groups history). sp_species r = s)
              \<longleftrightarrow> (\<exists>e\<in>set history. species_of e = s)"
    and "distinct (map sp_species (species_groups history))"
    and "\<forall>r\<in>set (species_groups history).
          let g = filter (\<lambda>e. species_of e = sp_species r) history;
              total = sum_list (map count_of g)
          in sp_total_count r = int64 total
             \<and> (- (2 ^ 63) \<le> total \<and> total < 2 ^ 63 \<longrightarrow> sp_total_count r = total)
             \<and> sp_avg_confidence r = Some (sum_list (map confidence_of g) / real (length g))
             \<and> sp_detections r = length g"
proof -
  show "\<forall>s. (\<exists>r\<in>set (species_groups history). sp_species r = s)
              \<longleftrightarrow> (\<exists>e\<in>set history. species_of e = s)"
  proof
    fix s
    have "(\<exists>r\<in>set (species_groups history). sp_species r = s)
          \<longleftrightarrow> s \<in> set (map sp_species (species_groups history))"
      by auto
    also have "\<dots> \<longleftrightarrow> s \<in> fst ` set (groupby (str_cell ''species'') history)"
      by (simp add: species_groups_species)
    also have "\<dots> \<longleftrightarrow> (\<exists>e\<in>set history. species_of e = s)"
      unfolding groupby_keys_set using assms by (auto simp: valid_event_cells)
    finally show "(\<exists>r\<in>set (species_groups history). sp_species r = s)
              \<longleftrightarrow> (\<exists>e\<in>set history. species_of e = s)" .
  qed
  show "distinct (map sp_species (species_groups history))"
    by (simp add: species_groups_species groupby_distinct)
  show "\<forall>r\<in>set (species_groups history).
          let g = filter (\<lambda>e. species_of e = sp_species r) history;
              total = sum_list (map count_of g)
          in sp_total_count r = int64 total
             \<and> (- (2 ^ 63) \<le> total \<and> total < 2 ^ 63 \<longrightarrow> sp_total_count r = total)
             \<and> sp_avg_confidence r = Some (sum_list (map confidence_of g) / real (length g))
             \<and> sp_detections r = length g"
  proof
    fix r assume "r \<in> set (species_groups history)"
    from species_groups_row [OF this] obtain g where
      g: "(sp_species r, g) \<in> set (groupby (str_cell ''species'') history)"
      and r: "sp_total_count r = agg_sum ''count'' g"
        "sp_avg_confidence r = agg_mean ''confidence'' g"
        "sp_detections r = agg_count ''detection_id'' g"
      by blast
    from groupby_group [OF g]
    have g0: "g = filter (\<lambda>e. str_cell ''species'' e = Some (sp_species r)) history"
      and ne: "g \<noteq> []"
      by blast+
    have g_eq: "g = filter (\<lambda>e. species_of e = sp_species r) history"
      using g0 species_group_valid [OF assms, of "sp_species r"] by simp
    have val: "\<forall>e\<in>set g. valid_event e" using assms g_eq by simp
    show "let g = filter (\<lambda>e. species_of e = sp_species r) history;
              total = sum_list (map count_of g)
          in sp_total_count r = int64 total
             \<and> (- (2 ^ 63) \<le> total \<and> total < 2 ^ 63 \<longrightarrow> sp_total_count r = total)
             \<and> sp_avg_confidence r = Some (sum_list (map confidence_of g) / real (length g))
             \<and> sp_detections r = length g"
      unfolding Let_def g_eq [symmetric]
      using r agg_sum_valid [OF val] agg_mean_valid [OF val ne] agg_count_valid [OF val]
      by (simp add: int64_id)
  qed
qed

section \<open>Claims about the summaries\<close>

text \<open>
  Claim C1, as the source has it, for every log of valid events. The species summary
  of a log that is not empty has one row for each species that occurs and none for any
  other; the row of a species reports the sum of the counts of its rows as 64 bits
  keep it (the sum itself whenever it lies between \<open>- 2\<^sup>6\<^sup>3\<close> and \<open>2\<^sup>6\<^sup>3 - 1\<close>), the
  unweighted mean of the confidences, and the number of the rows of that species
  (rows, whatever detection identifiers they share). \<^verbatim>\<open>get_species_summary\<close> gives
  that summary of the loaded log, and the empty summary for an empty log. The log of
  two red foxes (counts 2 and 1, confidences 0.9 and 0.7) and one coyote (count 1,
  confidence 0.6) gives red fox 3, 0.8, 2 and coyote 1, 0.6, 1.
\<close>

theorem species_summary_rows:
  assumes "\<forall>e\<in>set history. valid_event e" and "history \<noteq> []"
  shows "(\<exists>rows. species_summary history = Inr rows
      \<and> (\<forall>s. (\<exists>r\<in>set rows. sp_species r = s) \<longleftrightarrow> (\<exists>e\<in>set history. species_of e = s))
      \<and> distinct (map sp_species rows)
      \<and> (\<forall>r\<in>set rows.
            let g = filter (\<lambda>e. species_of e = sp_species r) history;
                total = sum_list (map count_of g)
            in sp_total_count r = int64 total
               \<and> (- (2 ^ 63) \<le> total \<and> total < 2 ^ 63 \<longrightarrow> sp_total_count r = total)
               \<and> sp_avg_confidence r = Some (sum_list (map confidence_of g) / real (length g))
               \<and> sp_detections r = length g)
      \<and> (\<forall>fs fs1. load_detection_history fs = Inr (history, fs1) \<longrightarrow>
            get_species_summary fs = Inr (rows, fs1)))
    \<and> (\<forall>fs fs1. load_detection_history fs = Inr ([], fs1) \<longrightarrow>
          get_species_summary fs = Inr ([], fs1))
    \<and> species_summary fox_log =
        Inr [\<lparr>sp_species = ''coyote'', sp_total_count = 1, sp_avg_confidence = Some (6 / 10),
              sp_detections = 1\<rparr>,
             \<lparr>sp_species = ''red fox'', sp_total_count = 3, sp_avg_confidence = Some (8 / 10),
              sp_detections = 2\<rparr>]"
proof -
  have s: "species_summary history = Inr (species_groups history)"
    by (rule species_summary_valid [OF assms])
  have g: "\<forall>fs fs1. load_detection_history fs = Inr (history, fs1) \<longrightarrow>
            get_species_summary fs = Inr (species_groups history, fs1)"
    using assms(2) by (simp add: get_species_summary_loaded s)
  have e: "\<forall>fs fs1. load_detection_history fs = Inr ([], fs1) \<longrightarrow>
          get_species_summary fs = Inr ([], fs1)"
    by (simp add: get_species_summary_loaded)
  from s g species_groups_facts [OF assms(1)]
  have "\<exists>rows. species_summary history = Inr rows
      \<and> (\<forall>s. (\<exists>r\<in>set rows. sp_species r = s) \<longleftrightarrow> (\<exists>e\<in>set history. species_of e = s))
      \<and> distinct (map sp_species rows)
      \<and> (\<forall>r\<in>set rows.
            let g = filter (\<lambda>e. species_of e = sp_species r) history;
                total = sum_list (map count_of g)
            in sp_total_count r = int64 total
               \<and> (- (2 ^ 63) \<le> total \<and> total < 2 ^ 63 \<longrightarrow> sp_total_count r = total)
               \<and> sp_avg_confidence r = Some (sum_list (map confidence_of g) / real (length g))
               \<and> sp_detections r = length g)
      \<and> (\<forall>fs fs1. load_detection_history fs = Inr (history, fs1) \<longrightarrow>
            get_species_summary fs = Inr (rows, fs1))"
    by (intro exI [of _ "species_groups history"] conjI) assumption+
  with e fox_summary show ?thesis by (intro conjI) assumption+
qed

text \<open>C1 on the log of two red foxes and a coyote, whose events are valid, stored in
  a history file.\<close>

theorem species_summary_rows_witness:
  "valid_event fox_a \<and> valid_event fox_b \<and> valid_event coyote_c
   \<and> species_summary fox_log =
     Inr [\<lparr>sp_species = ''coyote'', sp_total_count = 1, sp_avg_confidence = Some (6 / 10),
           sp_detections = 1\<rparr>,
          \<lparr>sp_species = ''red fox'', sp_total_count = 3, sp_avg_confidence = Some (8 / 10),
           sp_detections = 2\<rparr>]
   \<and> get_species_summary (dir_with (Stored fox_log) False) =
     Inr ([\<lparr>sp_species = ''coyote'', sp_total_count = 1, sp_avg_confidence = Some (6 / 10),
            sp_detections = 1\<rparr>,
           \<lparr>sp_species = ''red fox'', sp_total_count = 3, sp_avg_confidence = Some (8 / 10),
            sp_detections = 2\<rparr>], dir_with (Stored fox_log) False)
   \<and> get_species_summary (dir_with (Stored []) False) = Inr ([], dir_with (Stored []) False)"
  using species_summary_rows [OF example_logs_all_valid(1) example_logs_not_Nil(1)]
  by (simp add: example_logs_valid get_species_summary_loaded [OF load_dir_with(1)]
      example_logs_not_Nil fox_summary)

text \<open>C1 as stated fails: two valid sightings of \<open>2\<^sup>6\<^sup>2\<close> red foxes each have the sum
  \<open>2\<^sup>6\<^sup>3\<close>, and the summary reports \<open>- 2\<^sup>6\<^sup>3\<close>.\<close>

theorem species_total_wraps_around:
  "valid_event herd_a \<and> valid_event herd_b
   \<and> sum_list (map count_of herd_log) = 9223372036854775808
   \<and> species_summary herd_log =
     Inr [\<lparr>sp_species = ''red fox'', sp_total_count = - 9223372036854775808,
           sp_avg_confidence = Some (9 / 10), sp_detections = 2\<rparr>]"
  by (simp add: example_logs_valid herd_counts herd_summary)

text \<open>
  Claim C2, as the source has it, for every log of valid events that is not empty.
  When some event has the key \<^verbatim>\<open>latitude\<close> and some event the key \<^verbatim>\<open>longitude\<close>
  (every entry that \<^verbatim>\<open>save_detection_results\<close> writes has both), the summary of
  \<^verbatim>\<open>get_location_summary\<close> groups by the three columns location name, latitude and
  longitude: one row for each triple that occurs, reporting the number of distinct
  species of the group (the sentinel being one of them) and the sum of its counts as
  64 bits keep it; it reports no number of images. The Location Analysis report
  groups by latitude and longitude alone: one row for each pair that occurs, reporting
  the number of distinct species, that sum of the counts, and the number of distinct
  image names. In both, the group of a row holds exactly the events with the row's
  key, so that events with different latitudes are in different groups, and an event
  whose latitude or longitude is null or absent is in no group. When no event has the
  key \<^verbatim>\<open>latitude\<close>, or none the key \<^verbatim>\<open>longitude\<close>, both raise \<^verbatim>\<open>KeyError\<close>.
  \<^verbatim>\<open>get_location_summary\<close> gives the summary of the loaded log, and the empty summary
  for an empty log.
\<close>

theorem location_summaries:
  assumes "\<forall>e\<in>set history. valid_event e" and "history \<noteq> []"
  shows "((\<exists>e\<in>set history. e ''latitude'' \<noteq> None) \<and> (\<exists>e\<in>set history. e ''longitude'' \<noteq> None) \<longrightarrow>
      (\<exists>rows. location_summary history = Inr rows
        \<and> (\<forall>k. (\<exists>r\<in>set rows. (loc_location_name r, loc_latitude r, loc_longitude r) = k)
                \<longleftrightarrow> (\<exists>e\<in>set history. location_key e = Some k))
        \<and> distinct (map (\<lambda>r. (loc_location_name r, loc_latitude r, loc_longitude r)) rows)
        \<and> (\<forall>r\<in>set rows.
              let g = filter (\<lambda>e. location_key e
                              = Some (loc_location_name r, loc_latitude r, loc_longitude r)) history
              in loc_species_count r = card (species_of ` set g)
                 \<and> loc_total_detections r = int64 (sum_list (map count_of g))))
      \<and> (\<exists>rows. location_analysis history = Inr rows
        \<and> (\<forall>k. (\<exists>r\<in>set rows. (an_latitude r, an_longitude r) = k)
                \<longleftrightarrow> (\<exists>e\<in>set history. coordinates_key e = Some k))
        \<and> distinct (map (\<lambda>r. (an_latitude r, an_longitude r)) rows)
        \<and> (\<forall>r\<in>set rows.
              let g = filter (\<lambda>e. coordinates_key e = Some (an_latitude r, an_longitude r)) history
              in an_unique_species r = card (species_of ` set g)
                 \<and> an_total_detections r = int64 (sum_list (map count_of g))
                 \<and> an_images_analyzed r = card (image_of ` set g))))
    \<and> (\<not> (\<exists>e\<in>set history. e ''latitude'' \<noteq> None) \<longrightarrow>
          location_summary history = Inl (KeyError ''latitude'')
          \<and> location_analysis history = Inl (KeyError ''latitude''))
    \<and> ((\<exists>e\<in>set history. e ''latitude'' \<noteq> None) \<and> \<not> (\<exists>e\<in>set history. e ''longitude'' \<noteq> None) \<longrightarrow>
          location_summary history = Inl (KeyError ''longitude'')
          \<and> location_analysis history = Inl (KeyError ''longitude''))
    \<and> (\<forall>fs fs1. load_detection_history fs = Inr (history, fs1) \<longrightarrow>
          get_location_summary fs =
            (case location_summary history of
               Inl x \<Rightarrow> Inl x
             | Inr rows \<Rightarrow> Inr (rows, fs1)))
    \<and> (\<forall>fs fs1. load_detection_history fs = Inr ([], fs1) \<longrightarrow>
          get_location_summary fs = Inr ([], fs1))"
proof -
  note ls = location_summary_valid [OF assms] and la = location_analysis_valid [OF assms]
  have a: "(\<exists>e\<in>set history. e ''latitude'' \<noteq> None) \<and> (\<exists>e\<in>set history. e ''longitude'' \<noteq> None) \<longrightarrow>
      (\<exists>rows. location_summary history = Inr rows
        \<and> (\<forall>k. (\<exists>r\<in>set rows. (loc_location_name r, loc_latitude r, loc_longitude r) = k)
                \<longleftrightarrow> (\<exists>e\<in>set history. location_key e = Some k))
        \<and> distinct (map (\<lambda>r. (loc_location_name r, loc_latitude r, loc_longitude r)) rows)
        \<and> (\<forall>r\<in>set rows.
              let g = filter (\<lambda>e. location_key e
                              = Some (loc_location_name r, loc_latitude r, loc_longitude r)) history
              in loc_species_count r = card (species_of ` set g)
                 \<and> loc_total_detections r = int64 (sum_list (map count_of g))))
      \<and> (\<exists>rows. location_analysis history = Inr rows
        \<and> (\<forall>k. (\<exists>r\<in>set rows. (an_latitude r, an_longitude r) = k)
                \<longleftrightarrow> (\<exists>e\<in>set history. coordinates_key e = Some k))
        \<and> distinct (map (\<lambda>r. (an_latitude r, an_longitude r)) rows)
        \<and> (\<forall>r\<in>set rows.
              let g = filter (\<lambda>e. coordinates_key e = Some (an_latitude r, an_longitude r)) history
              in an_unique_species r = card (species_of ` set g)
                 \<and> an_total_detections r = int64 (sum_list (map count_of g))
                 \<and> an_images_analyzed r = card (image_of ` set g)))"
  proof
    assume c: "(\<exists>e\<in>set history. e ''latitude'' \<noteq> None) \<and> (\<exists>e\<in>set history. e ''longitude'' \<noteq> None)"
    then have s: "location_summary history = Inr (location_groups history)"
      and n: "location_analysis history = Inr (analysis_groups history)"
      by (simp_all add: ls la has_column_iff)
    from s location_groups_facts [OF assms(1)]
    have 1: "\<exists>rows. location_summary history = Inr rows
        \<and> (\<forall>k. (\<exists>r\<in>set rows. (loc_location_name r, loc_latitude r, loc_longitude r) = k)
                \<longleftrightarrow> (\<exists>e\<in>set history. location_key e = Some k))
        \<and> distinct (map (\<lambda>r. (loc_location_name r, loc_latitude r, loc_longitude r)) rows)
        \<and> (\<forall>r\<in>set rows.
              let g = filter (\<lambda>e. location_key e
                              = Some (loc_location_name r, loc_latitude r, loc_longitude r)) history
              in loc_species_count r = card (species_of ` set g)
                 \<and> loc_total_detections r = int64 (sum_list (map count_of g)))"
      by (intro exI [of _ "location_groups history"] conjI) assumption+
    from n analysis_groups_facts [OF assms(1)]
    have 2: "\<exists>rows. location_analysis history = Inr rows
        \<and> (\<forall>k. (\<exists>r\<in>set rows. (an_latitude r, an_longitude r) = k)
                \<longleftrightarrow> (\<exists>e\<in>set history. coordinates_key e = Some k))
        \<and> distinct (map (\<lambda>r. (an_latitude r, an_longitude r)) rows)
        \<and> (\<forall>r\<in>set rows.
              let g = filter (\<lambda>e. coordinates_key e = Some (an_latitude r, an_longitude r)) history
              in an_unique_species r = card (species_of ` set g)
                 \<and> an_total_detections r = int64 (sum_list (map count_of g))
                 \<and> an_images_analyzed r = card (image_of ` set g))"
      by (intro exI [of _ "analysis_groups history"] conjI) assumption+
    from 1 2 show "(\<exists>rows. location_summary history = Inr rows
        \<and> (\<forall>k. (\<exists>r\<in>set rows. (loc_location_name r, loc_latitude r, loc_longitude r) = k)
                \<longleftrightarrow> (\<exists>e\<in>set history. location_key e = Some k))
        \<and> distinct (map (\<lambda>r. (loc_location_name r, loc_latitude r, loc_longitude r)) rows)
        \<and> (\<forall>r\<in>set rows.
              let g = filter (\<lambda>e. location_key e
                              = Some (loc_location_name r, loc_latitude r, loc_longitude r)) history
              in loc_species_count r = card (species_of ` set g)
                 \<and> loc_total_detections r = int64 (sum_list (map count_of g))))
      \<and> (\<exists>rows. location_analysis history = Inr rows
        \<and> (\<forall>k. (\<exists>r\<in>set rows. (an_latitude r, an_longitude r) = k)
                \<longleftrightarrow> (\<exists>e\<in>set history. coordinates_key e = Some k))
        \<and> distinct (map (\<lambda>r. (an_latitude r, an_longitude r)) rows)
        \<and> (\<forall>r\<in>set rows.
              let g = filter (\<lambda>e. coordinates_key e = Some (an_latitude r, an_longitude r)) history
              in an_unique_species r = card (species_of ` set g)
                 \<and> an_total_detections r = int64 (sum_list (map count_of g))
                 \<and> an_images_analyzed r = card (image_of ` set g)))" ..
  qed
  have b: "\<not> (\<exists>e\<in>set history. e ''latitude'' \<noteq> None) \<longrightarrow>
          location_summary history = Inl (KeyError ''latitude'')
          \<and> location_analysis history = Inl (KeyError ''latitude'')"
    by (simp add: ls la has_column_iff)
  have c: "(\<exists>e\<in>set history. e ''latitude'' \<noteq> None) \<and> \<not> (\<exists>e\<in>set history. e ''longitude'' \<noteq> None) \<longrightarrow>
          location_summary history = Inl (KeyError ''longitude'')
          \<and> location_analysis history = Inl (KeyError ''longitude'')"
    by (simp add: ls la has_column_iff)
  have d: "\<forall>fs fs1. load_detection_history fs = Inr (history, fs1) \<longrightarrow>
          get_location_summary fs =
            (case location_summary history of
               Inl x \<Rightarrow> Inl x
             | Inr rows \<Rightarrow> Inr (rows, fs1))"
    using assms(2) by (simp add: get_location_summary_loaded)
  have e: "\<forall>fs fs1. load_detection_history fs = Inr ([], fs1) \<longrightarrow>
          get_location_summary fs = Inr ([], fs1)"
    by (simp add: get_location_summary_loaded)
  from a b c d e show ?thesis by (intro conjI) assumption+
qed

text \<open>C2 on a log with one site name at two latitudes and two site names at one pair
  of coordinates, and on a log of one valid event without the two keys.\<close>

theorem location_summaries_witness:
  "valid_event site_a \<and> valid_event site_a_north \<and> valid_event site_b
   \<and> location_summary site_log =
       Inr [\<lparr>loc_location_name = ''Site A'', loc_latitude = 43, loc_longitude = - 110,
             loc_species_count = 1, loc_total_detections = 2\<rparr>,
            \<lparr>loc_location_name = ''Site A'', loc_latitude = 44, loc_longitude = - 110,
             loc_species_count = 1, loc_total_detections = 1\<rparr>,
            \<lparr>loc_location_name = ''Site B'', loc_latitude = 43, loc_longitude = - 110,
             loc_species_count = 1, loc_total_detections = 0\<rparr>]
   \<and> valid_event unplaced
   \<and> location_summary [unplaced] = Inl (KeyError ''latitude'')
   \<and> location_analysis [unplaced] = Inl (KeyError ''latitude'')"
proof -
  have u: "\<forall>e\<in>set [unplaced]. valid_event e" and n: "[unplaced] \<noteq> []"
    by (simp_all add: valid_unplaced)
  from location_summaries [OF example_logs_all_valid(2) example_logs_not_Nil(2)]
    location_summaries [OF u n]
  show ?thesis
    by (simp add: example_logs_valid site_summary valid_unplaced unplaced_summary)
qed

text \<open>C2 as stated fails on the Location Analysis report: the events of Site A and of
  Site B at the same coordinates have different composite keys and are in one group,
  whose row counts both species and both counts.\<close>

theorem location_analysis_merges_names:
  "location_key site_a = Some (''Site A'', 43, - 110)
   \<and> location_key site_b = Some (''Site B'', 43, - 110)
   \<and> location_analysis site_log =
     Inr [\<lparr>an_latitude = 43, an_longitude = - 110, an_unique_species = 2,
           an_total_detections = 2, an_images_analyzed = 1\<rparr>,
          \<lparr>an_latitude = 44, an_longitude = - 110, an_unique_species = 1,
           an_total_detections = 1, an_images_analyzed = 1\<rparr>]"
  by (simp add: site_keys site_analysis)

text \<open>
  Claim C8, as the source has it, for every log of valid events that is not empty (the
  report is shown for no other). The Detection Timeline report has one row for each
  date on which an event was recorded, the dates ascending whatever the order of the
  log; the row of a date reports the number of distinct species, the sum of the counts
  as 64 bits keep it (the sum itself whenever it lies between \<open>- 2\<^sup>6\<^sup>3\<close> and
  \<open>2\<^sup>6\<^sup>3 - 1\<close>), and the number of distinct image names of the events of that date.
  The log with events of 2025-01-02, 2025-01-01 and 2025-01-02, in that order or
  reversed, gives the row of 2025-01-01 before the row of 2025-01-02.
\<close>

theorem detection_timeline_rows:
  assumes "\<forall>e\<in>set history. valid_event e" and "history \<noteq> []"
  shows "(\<exists>rows. detection_timeline history = Inr rows
      \<and> sorted (map tl_date rows) \<and> distinct (map tl_date rows)
      \<and> set (map tl_date rows) = date_of ` set history
      \<and> (\<forall>r\<in>set rows.
            let g = filter (\<lambda>e. date_of e = tl_date r) history;
                total = sum_list (map count_of g)
            in tl_species_count r = card (species_of ` set g)
               \<and> tl_total_detections r = int64 total
               \<and> (- (2 ^ 63) \<le> total \<and> total < 2 ^ 63 \<longrightarrow> tl_total_detections r = total)
               \<and> tl_images r = card (image_of ` set g)))
    \<and> detection_timeline fox_log =
        Inr [\<lparr>tl_date = (2025, 1, 1), tl_species_count = 1, tl_total_detections = 1,
              tl_images = 1\<rparr>,
             \<lparr>tl_date = (2025, 1, 2), tl_species_count = 2, tl_total_detections = 3,
              tl_images = 2\<rparr>]
    \<and> detection_timeline (rev fox_log) = detection_timeline fox_log"
proof -
  define ds where "ds = map (\<lambda>e. (datetime_of e, e)) history"
  define gs where "gs = groupby (\<lambda>(d, e). Some (fst d)) ds"
  define row :: "date \<times> (datetime \<times> event) list \<Rightarrow> timeline_row"
    where "row = (\<lambda>(k, g). \<lparr>tl_date = k,
                        tl_species_count = agg_nunique ''species'' (map snd g),
                        tl_total_detections = agg_sum ''count'' (map snd g),
                        tl_images = agg_nunique ''image_name'' (map snd g)\<rparr>)"
  have tl: "detection_timeline history = Inr (map row gs)"
    by (simp add: detection_timeline_valid [OF assms] timeline_groups_def ds_def gs_def row_def)
  have dates: "map tl_date (map row gs) = map fst gs"
    by (simp add: row_def comp_def case_prod_unfold)
  have s: "sorted (map tl_date (map row gs))"
    unfolding dates by (simp add: gs_def groupby_sorted)
  have d: "distinct (map tl_date (map row gs))"
    unfolding dates by (simp add: gs_def groupby_distinct)
  have k: "set (map tl_date (map row gs)) = date_of ` set history"
    unfolding dates using timeline_keys [of history] by (simp add: gs_def ds_def)
  have r: "\<forall>r\<in>set (map row gs).
            let g = filter (\<lambda>e. date_of e = tl_date r) history;
                total = sum_list (map count_of g)
            in tl_species_count r = card (species_of ` set g)
               \<and> tl_total_detections r = int64 total
               \<and> (- (2 ^ 63) \<le> total \<and> total < 2 ^ 63 \<longrightarrow> tl_total_detections r = total)
               \<and> tl_images r = card (image_of ` set g)"
  proof
    fix r assume "r \<in> set (map row gs)"
    then obtain k g where kg: "(k, g) \<in> set gs" and r: "r = row (k, g)" by auto
    from timeline_group [OF kg [unfolded gs_def ds_def]]
    have g_eq: "map snd g = filter (\<lambda>e. date_of e = k) history" .
    have val: "\<forall>e\<in>set (map snd g). valid_event e" using assms(1) unfolding g_eq by simp
    have rk: "tl_date r = k" by (simp add: r row_def)
    show "let g = filter (\<lambda>e. date_of e = tl_date r) history;
                total = sum_list (map count_of g)
            in tl_species_count r = card (species_of ` set g)
               \<and> tl_total_detections r = int64 total
               \<and> (- (2 ^ 63) \<le> total \<and> total < 2 ^ 63 \<longrightarrow> tl_total_detections r = total)
               \<and> tl_images r = card (image_of ` set g)"
      unfolding Let_def rk g_eq [symmetric]
      using agg_nunique_species_valid [OF val] agg_sum_valid [OF val]
        agg_nunique_image_valid [OF val]
      by (simp add: r row_def int64_id)
  qed
  from tl s d k r
  have "\<exists>rows. detection_timeline history = Inr rows
      \<and> sorted (map tl_date rows) \<and> distinct (map tl_date rows)
      \<and> set (map tl_date rows) = date_of ` set history
      \<and> (\<forall>r\<in>set rows.
            let g = filter (\<lambda>e. date_of e = tl_date r) history;
                total = sum_list (map count_of g)
            in tl_species_count r = card (species_of ` set g)
               \<and> tl_total_detections r = int64 total
               \<and> (- (2 ^ 63) \<le> total \<and> total < 2 ^ 63 \<longrightarrow> tl_total_detections r = total)
               \<and> tl_images r = card (image_of ` set g))"
    by (intro exI [of _ "map row gs"] conjI) assumption+
  with fox_timeline fox_timeline_reversed show ?thesis by (intro conjI) assumption+
qed

text \<open>C8 on the log of two red foxes and a coyote.\<close>

theorem detection_timeline_rows_witness:
  "valid_event fox_a \<and> valid_event fox_b \<and> valid_event coyote_c
   \<and> detection_timeline fox_log =
        Inr [\<lparr>tl_date = (2025, 1, 1), tl_species_count = 1, tl_total_detections = 1,
              tl_images = 1\<rparr>,
             \<lparr>tl_date = (2025, 1, 2), tl_species_count = 2, tl_total_detections = 3,
              tl_images = 2\<rparr>]"
  using detection_timeline_rows [OF example_logs_all_valid(1) example_logs_not_Nil(1)]
  by (simp add: example_logs_valid)

text \<open>C8 as stated fails: two valid sightings of \<open>2\<^sup>6\<^sup>2\<close> red foxes each on one day
  have the sum \<open>2\<^sup>6\<^sup>3\<close>, and the timeline reports \<open>- 2\<^sup>6\<^sup>3\<close>.\<close>

theorem timeline_total_wraps_around:
  "valid_event herd_a \<and> valid_event herd_b
   \<and> date_of herd_a = (2025, 1, 1) \<and> date_of herd_b = (2025, 1, 1)
   \<and> count_of herd_a + count_of herd_b = 9223372036854775808
   \<and> detection_timeline herd_log =
     Inr [\<lparr>tl_date = (2025, 1, 1), tl_species_count = 1,
           tl_total_detections = - 9223372036854775808, tl_images = 2\<rparr>]"
  by (simp add: example_logs_valid herd_timeline)
    (simp add: herd_a_def herd_b_def count_of_mk_event date_of_def datetime_of_def
      event_datetime_def mk_event_cells to_datetime_examples)

section \<open>Facts about the export\<close>

lemma is_csv_examples:
  "is_csv ''csv''" "is_csv ''CSV''" "\<not> is_csv ''json''" "\<not> is_csv ''JSON''"
  by code_simp+

lemma filtered_rows:
  "map snd
     (case t of None \<Rightarrow> (case s of None \<Rightarrow> map (\<lambda>e. (datetime_of e, e)) h
                           | Some a \<Rightarrow> filter (\<lambda>(d, e). a \<le> d) (map (\<lambda>e. (datetime_of e, e)) h))
      | Some b \<Rightarrow> filter (\<lambda>(d, e). d \<le> b)
                   (case s of None \<Rightarrow> map (\<lambda>e. (datetime_of e, e)) h
                    | Some a \<Rightarrow> filter (\<lambda>(d, e). a \<le> d) (map (\<lambda>e. (datetime_of e, e)) h)))
   = filter (in_range s t) h"
  by (induction h) (auto simp: in_range_def split: option.splits)

lemma export_empty:
  "load_detection_history fs = Inr ([], fs1) \<Longrightarrow>
   export_detection_data s t fmt now fs = Inr (None, fs1)"
  by (simp add: export_detection_data_def)

lemma export_rows:
  assumes "load_detection_history fs = Inr (h, fs1)" and "h \<noteq> []"
    and "\<forall>e\<in>set h. event_datetime e \<noteq> None" and "writable fs"
  shows "export_detection_data s t fmt now fs =
     Inr (Some (dir_path fs1 @ ''/detection_export_'' @ now
                  @ (if is_csv fmt then ''.csv'' else ''.json'')),
          fs1\<lparr>exported := (exported fs1)
                 (dir_path fs1 @ ''/detection_export_'' @ now
                    @ (if is_csv fmt then ''.csv'' else ''.json'') \<mapsto> filter (in_range s t) h)\<rparr>)"
  using assms(2) load_writable [OF assms(1)] assms(4)
    filtered_rows [where t = t and s = s and h = h]
  by (simp add: export_detection_data_def assms(1) datetime_column_parsed [OF assms(3)] Let_def)

lemma export_unwritable:
  assumes "load_detection_history fs = Inr (h, fs1)" and "h \<noteq> []"
    and "\<forall>e\<in>set h. event_datetime e \<noteq> None" and "\<not> writable fs"
  shows "export_detection_data s t fmt now fs = Inl IOError"
  using assms(2) load_writable [OF assms(1)] assms(4)
  by (simp add: export_detection_data_def assms(1) datetime_column_parsed [OF assms(3)] Let_def)

lemma jan_parsed: "\<forall>e\<in>set jan_log. event_datetime e \<noteq> None"
  using example_logs_valid(7-9) by (simp add: jan_log_def valid_event_def)

lemma jan_datetimes:
  "datetime_of jan01 = ((2025, 1, 1), (9, 30, 0))"
  "datetime_of jan15 = ((2025, 1, 15), (12, 0, 0))"
  "datetime_of feb01 = ((2025, 2, 1), (10, 0, 0))"
  by (simp_all add: jan01_def jan15_def feb01_def datetime_of_def event_datetime_def
      mk_event_cells to_datetime_examples to_datetime_def digit_def days_in_month_def)

lemma jan_filter:
  "filter (in_range (Some ((2025, 1, 10), (0, 0, 0))) (Some ((2025, 1, 31), (0, 0, 0)))) jan_log
     = [jan15]"
  by (simp add: jan_log_def in_range_def jan_datetimes)

lemma jan_filter_march:
  "filter (in_range (Some ((2025, 3, 1), (0, 0, 0))) (Some ((2025, 3, 31), (0, 0, 0)))) jan_log
     = []"
  by (simp add: jan_log_def in_range_def jan_datetimes)

lemma jan_log_not_Nil: "jan_log \<noteq> []"
  by (simp add: jan_log_def)

lemma export_jan:
  "export_detection_data s t fmt now (dir_with (Stored jan_log) True)
   = Inr (Some (''data/detection_export_'' @ now @ (if is_csv fmt then ''.csv'' else ''.json'')),
          (dir_with (Stored jan_log) True)
            \<lparr>exported := [''data/detection_export_'' @ now
                            @ (if is_csv fmt then ''.csv'' else ''.json'')
                          \<mapsto> filter (in_range s t) jan_log]\<rparr>)"
proof -
  have w: "writable (dir_with (Stored jan_log) True)" by (simp add: dir_with_fields)
  show ?thesis
    unfolding export_rows [OF load_dir_with(1) jan_log_not_Nil jan_parsed w]
    by (simp add: dir_with_def)
qed

section \<open>Claims about the export\<close>

text \<open>
  Claim C7: for every log with timestamps in the written format and every pair of
  bounds, the export file holds exactly the events of the log, in the order of the
  log, whose timestamp lies in the closed interval of the bounds, a bound that is not
  given being open; from an empty log nothing is exported. With events on 2025-01-01,
  2025-01-15 and 2025-02-01 and the bounds 2025-01-10 and 2025-01-31, the event of
  2025-01-15 alone is kept. (The bounds are timestamps, as the docstring declares; the
  file is written when the directory is writable.)
\<close>

theorem export_filters_by_date:
  assumes "load_detection_history fs = Inr (h, fs1)"
    and "\<forall>e\<in>set h. event_datetime e \<noteq> None"
    and "h \<noteq> [] \<longrightarrow> writable fs"
  shows "(h = [] \<longrightarrow> export_detection_data s t fmt now fs = Inr (None, fs1))
    \<and> (h \<noteq> [] \<longrightarrow>
         (\<exists>p. export_detection_data s t fmt now fs
                = Inr (Some p, fs1\<lparr>exported := (exported fs1)(p \<mapsto> filter (in_range s t) h)\<rparr>)))
    \<and> (\<forall>e. in_range s t e \<longleftrightarrow>
              (\<forall>a. s = Some a \<longrightarrow> a \<le> datetime_of e) \<and> (\<forall>b. t = Some b \<longrightarrow> datetime_of e \<le> b))
    \<and> filter (in_range (Some ((2025, 1, 10), (0, 0, 0))) (Some ((2025, 1, 31), (0, 0, 0))))
         jan_log = [jan15]"
proof -
  have a: "h = [] \<longrightarrow> export_detection_data s t fmt now fs = Inr (None, fs1)"
    using export_empty assms(1) by blast
  have b: "h \<noteq> [] \<longrightarrow>
         (\<exists>p. export_detection_data s t fmt now fs
                = Inr (Some p, fs1\<lparr>exported := (exported fs1)(p \<mapsto> filter (in_range s t) h)\<rparr>))"
  proof
    assume ne: "h \<noteq> []"
    with assms(3) have w: "writable fs" by simp
    from export_rows [OF assms(1) ne assms(2) w]
    show "\<exists>p. export_detection_data s t fmt now fs
                = Inr (Some p, fs1\<lparr>exported := (exported fs1)(p \<mapsto> filter (in_range s t) h)\<rparr>)"
      by blast
  qed
  have c: "\<forall>e. in_range s t e \<longleftrightarrow>
              (\<forall>a. s = Some a \<longrightarrow> a \<le> datetime_of e) \<and> (\<forall>b. t = Some b \<longrightarrow> datetime_of e \<le> b)"
    by (auto simp: in_range_def split: option.splits)
  from a b c jan_filter show ?thesis by blast
qed

text \<open>C7 on the log of the three dates, exported with the bounds 2025-01-10 and
  2025-01-31.\<close>

theorem export_filters_by_date_witness:
  "valid_event jan01 \<and> valid_event jan15 \<and> valid_event feb01
   \<and> export_detection_data (Some ((2025, 1, 10), (0, 0, 0))) (Some ((2025, 1, 31), (0, 0, 0)))
       ''CSV'' ''20250401_120000'' (dir_with (Stored jan_log) True)
     = Inr (Some ''data/detection_export_20250401_120000.csv'',
            (dir_with (Stored jan_log) True)
              \<lparr>exported := [''data/detection_export_20250401_120000.csv'' \<mapsto> [jan15]]\<rparr>)"
proof -
  have w: "jan_log \<noteq> [] \<longrightarrow> writable (dir_with (Stored jan_log) True)"
    by (simp add: dir_with_fields)
  have e: "export_detection_data (Some ((2025, 1, 10), (0, 0, 0))) (Some ((2025, 1, 31), (0, 0, 0)))
       ''CSV'' ''20250401_120000'' (dir_with (Stored jan_log) True)
     = Inr (Some ''data/detection_export_20250401_120000.csv'',
            (dir_with (Stored jan_log) True)
              \<lparr>exported := [''data/detection_export_20250401_120000.csv'' \<mapsto> [jan15]]\<rparr>)"
    unfolding export_jan jan_filter by (simp add: is_csv_examples)
  from export_filters_by_date [OF load_dir_with(1) jan_parsed w] e example_logs_valid(7-9)
  show ?thesis by blast
qed

text \<open>
  Claim C3, as the source has it, for a log that \<^verbatim>\<open>load_detection_history\<close> returns
  and whose timestamps are in the written format: the export returns no path exactly
  when the loaded log is empty, and then writes no file. When the log is not empty,
  the result does not depend on whether an event lies within the bounds: in a
  directory that can be written the export writes a file holding the events within
  the bounds, a file without rows when there is none, and returns the path of that
  file; in a directory that cannot be written it raises the error of the write.
\<close>

theorem export_null_only_for_empty_log:
  assumes "load_detection_history fs = Inr (h, fs1)"
    and "\<forall>e\<in>set h. event_datetime e \<noteq> None"
  shows "(h = [] \<longrightarrow> export_detection_data s t fmt now fs = Inr (None, fs1))
    \<and> (h \<noteq> [] \<and> writable fs \<longrightarrow>
         export_detection_data s t fmt now fs
           = Inr (Some (dir_path fs1 @ ''/detection_export_'' @ now
                          @ (if is_csv fmt then ''.csv'' else ''.json'')),
                  fs1\<lparr>exported := (exported fs1)
                         (dir_path fs1 @ ''/detection_export_'' @ now
                            @ (if is_csv fmt then ''.csv'' else ''.json'')
                          \<mapsto> filter (in_range s t) h)\<rparr>))
    \<and> (h \<noteq> [] \<and> \<not> writable fs \<longrightarrow> export_detection_data s t fmt now fs = Inl IOError)
    \<and> (\<forall>res fs2. export_detection_data s t fmt now fs = Inr (res, fs2) \<longrightarrow>
           (res = None \<longleftrightarrow> h = []))"
proof (cases "h = []")
  case True
  with export_empty [OF assms(1) [unfolded True]] show ?thesis by simp
next
  case False
  show ?thesis
  proof (cases "writable fs")
    case True
    from export_rows [OF assms(1) False assms(2) True, of s t fmt now] False True
    show ?thesis by simp
  next
    case w: False
    from export_unwritable [OF assms(1) False assms(2) w, of s t fmt now] False w
    show ?thesis by simp
  qed
qed

text \<open>C3 on an empty log in a directory that cannot be written, and on the log of the
  three dates exported as JSON with bounds in March, in a directory that can be
  written and in one that cannot.\<close>

theorem export_null_only_for_empty_log_witness:
  "export_detection_data None None ''csv'' ''20250401_120000'' (dir_with (Stored []) False)
     = Inr (None, dir_with (Stored []) False)
   \<and> export_detection_data (Some ((2025, 3, 1), (0, 0, 0))) (Some ((2025, 3, 31), (0, 0, 0)))
       ''JSON'' ''20250401_120000'' (dir_with (Stored jan_log) True)
     = Inr (Some ''data/detection_export_20250401_120000.json'',
            (dir_with (Stored jan_log) True)
              \<lparr>exported := [''data/detection_export_20250401_120000.json'' \<mapsto> []]\<rparr>)
   \<and> export_detection_data (Some ((2025, 3, 1), (0, 0, 0))) (Some ((2025, 3, 31), (0, 0, 0)))
       ''JSON'' ''20250401_120000'' (dir_with (Stored jan_log) False)
     = Inl IOError"
proof -
  have p0: "\<forall>e\<in>set []. event_datetime e \<noteq> None" by simp
  have d: "dir_path (dir_with f w) = ''data''" "exported (dir_with f w) = Map.empty" for f w
    by (simp_all add: dir_with_def)
  from export_null_only_for_empty_log [where fs = "dir_with (Stored []) False" and s = None
      and t = None and fmt = "''csv''" and now = "''20250401_120000''",
      OF load_dir_with(1) p0]
  have a: "export_detection_data None None ''csv'' ''20250401_120000'' (dir_with (Stored []) False)
     = Inr (None, dir_with (Stored []) False)"
    by simp
  from export_null_only_for_empty_log [where fs = "dir_with (Stored jan_log) True"
      and s = "Some ((2025, 3, 1), (0, 0, 0))" and t = "Some ((2025, 3, 31), (0, 0, 0))"
      and fmt = "''JSON''" and now = "''20250401_120000''", OF load_dir_with(1) jan_parsed,
      unfolded jan_filter_march]
  have b: "export_detection_data (Some ((2025, 3, 1), (0, 0, 0))) (Some ((2025, 3, 31), (0, 0, 0)))
       ''JSON'' ''20250401_120000'' (dir_with (Stored jan_log) True)
     = Inr (Some ''data/detection_export_20250401_120000.json'',
            (dir_with (Stored jan_log) True)
              \<lparr>exported := [''data/detection_export_20250401_120000.json'' \<mapsto> []]\<rparr>)"
    by (simp add: jan_log_not_Nil dir_with_fields d is_csv_examples)
  from export_null_only_for_empty_log [where fs = "dir_with (Stored jan_log) False"
      and s = "Some ((2025, 3, 1), (0, 0, 0))" and t = "Some ((2025, 3, 31), (0, 0, 0))"
      and fmt = "''JSON''" and now = "''20250401_120000''", OF load_dir_with(1) jan_parsed]
  have c: "export_detection_data (Some ((2025, 3, 1), (0, 0, 0))) (Some ((2025, 3, 31), (0, 0, 0)))
       ''JSON'' ''20250401_120000'' (dir_with (Stored jan_log) False)
     = Inl IOError"
    by (simp add: jan_log_not_Nil dir_with_fields)
  from a b c show ?thesis by simp
qed

text \<open>C3 as stated fails: the log of the three dates, exported with bounds in March
  that no event meets, gives a path, and a file without rows is written.\<close>

theorem export_empty_range_returns_path:
  "export_detection_data (Some ((2025, 3, 1), (0, 0, 0))) (Some ((2025, 3, 31), (0, 0, 0)))
     ''csv'' ''20250401_120000'' (dir_with (Stored jan_log) True)
   = Inr (Some ''data/detection_export_20250401_120000.csv'',
          (dir_with (Stored jan_log) True)
            \<lparr>exported := [''data/detection_export_20250401_120000.csv'' \<mapsto> []]\<rparr>)"
  unfolding export_jan jan_filter_march by (simp add: is_csv_examples)

end
